theory Spec2Isabelle
  imports Complex_Main
begin

section \<open>JavaScript values\<close>

text \<open>
  The validator works on values parsed from JSON or YAML documents and on HTTP response
  bodies.  A number is an IEEE double: a finite double is represented by the rational it
  denotes (the sign of zero is never observed by the code), the other three values are
  constructors of their own.  A string is a list of UTF-16 code units, restricted here to
  the code units below 256.  An object is the list of its own enumerable properties in
  the order \<^verbatim>\<open>Object.keys\<close> reports them; properties inherited from
  \<^verbatim>\<open>Object.prototype\<close> are not part of the model.  A \<^verbatim>\<open>Buffer\<close> is kept
  as its list of bytes.
\<close>

datatype jsnum = Fin rat | PInf | NInf | NaN

datatype json =
    JUndefined
  | JNull
  | JBool bool
  | JNum jsnum
  | JStr string
  | JArr "json list"
  | JObj "(string \<times> json) list"
  | JBuffer string

subsection \<open>Comparison of numbers\<close>

fun js_lt :: "jsnum \<Rightarrow> jsnum \<Rightarrow> bool" where
  "js_lt (Fin a) (Fin b) = (a < b)"
| "js_lt (Fin a) PInf = True"
| "js_lt NInf (Fin b) = True"
| "js_lt NInf PInf = True"
| "js_lt _ _ = False"

fun js_num_eq :: "jsnum \<Rightarrow> jsnum \<Rightarrow> bool" where
  "js_num_eq (Fin a) (Fin b) = (a = b)"
| "js_num_eq PInf PInf = True"
| "js_num_eq NInf NInf = True"
| "js_num_eq _ _ = False"

definition js_gt :: "jsnum \<Rightarrow> jsnum \<Rightarrow> bool" where
  "js_gt a b = js_lt b a"

definition js_le :: "jsnum \<Rightarrow> jsnum \<Rightarrow> bool" where
  "js_le a b = (js_lt a b \<or> js_num_eq a b)"

definition js_ge :: "jsnum \<Rightarrow> jsnum \<Rightarrow> bool" where
  "js_ge a b = (js_lt b a \<or> js_num_eq a b)"

subsection \<open>Rounding to a double\<close>

fun bit_length :: "nat \<Rightarrow> nat" where
  "bit_length n = (if n = 0 then 0 else Suc (bit_length (n div 2)))"

declare bit_length.simps [simp del]

definition pow2 :: "int \<Rightarrow> rat" where
  "pow2 p = (if 0 \<le> p then 2 ^ nat p else 1 / 2 ^ nat (- p))"

text \<open>\<open>binary_exponent a\<close> is the integer \<open>e\<close> with \<open>2 ^ e \<le> a < 2 ^ (e + 1)\<close>, for \<open>0 < a\<close>.\<close>

definition binary_exponent :: "rat \<Rightarrow> int" where
  "binary_exponent a =
     (let (n, d) = quotient_of a;
          e0 = int (bit_length (nat n)) - int (bit_length (nat d))
      in if pow2 e0 \<le> a then e0 else e0 - 1)"

definition round_half_even :: "rat \<Rightarrow> int" where
  "round_half_even r =
     (let f = \<lfloor>r\<rfloor>; d = r - of_int f
      in if d < 1 / 2 then f
         else if 1 / 2 < d then f + 1
         else if even f then f else f + 1)"

text \<open>Round to nearest, ties to even, with 53 bits of precision, gradual underflow below
  \<open>2 ^ -1022\<close> and overflow to infinity from \<open>2 ^ 1024\<close>.\<close>

definition round_double :: "rat \<Rightarrow> jsnum" where
  "round_double q =
     (if q = 0 then Fin 0
      else
        let a = \<bar>q\<bar>;
            p = max (binary_exponent a) (- 1022) - 52;
            r = of_int (round_half_even (a / pow2 p)) * pow2 p
        in if 1024 \<le> binary_exponent r then (if q < 0 then NInf else PInf)
           else Fin (if q < 0 then - r else r))"

subsection \<open>Strings\<close>

definition is_digit :: "char \<Rightarrow> bool" where
  "is_digit c = (c \<in> set ''0123456789'')"

definition is_hex_digit :: "char \<Rightarrow> bool" where
  "is_hex_digit c = (c \<in> set ''0123456789abcdefABCDEF'')"

definition is_lower :: "char \<Rightarrow> bool" where
  "is_lower c = (c \<in> set ''abcdefghijklmnopqrstuvwxyz'')"

definition is_upper :: "char \<Rightarrow> bool" where
  "is_upper c = (c \<in> set ''ABCDEFGHIJKLMNOPQRSTUVWXYZ'')"

text \<open>The white space and line terminators of ECMAScript among the code units below 256:
  tab, line feed, vertical tab, form feed, carriage return, space, no-break space.\<close>

definition is_space :: "char \<Rightarrow> bool" where
  "is_space c = (c \<in> set [CHR 0x09, CHR 0x0A, CHR 0x0B, CHR 0x0C, CHR 0x0D, CHR 0x20, CHR 0xA0])"

text \<open>The line terminators, which \<^verbatim>\<open>.\<close> of a regular expression does not match.\<close>

definition is_line_terminator :: "char \<Rightarrow> bool" where
  "is_line_terminator c = (c \<in> set [CHR 0x0A, CHR 0x0D])"

definition trim :: "string \<Rightarrow> string" where
  "trim s = rev (dropWhile is_space (rev (dropWhile is_space s)))"

fun startsWith :: "string \<Rightarrow> string \<Rightarrow> bool" where
  "startsWith s [] = True"
| "startsWith [] (p # ps) = False"
| "startsWith (c # cs) (p # ps) = (c = p \<and> startsWith cs ps)"

definition digit_value :: "char \<Rightarrow> nat" where
  "digit_value c =
     (if is_digit c then of_char c - 48
      else if is_lower c then of_char c - 87
      else of_char c - 55)"

definition digits_value :: "nat \<Rightarrow> string \<Rightarrow> nat" where
  "digits_value base ds = foldl (\<lambda>a c. base * a + digit_value c) 0 ds"

definition digit_char :: "nat \<Rightarrow> char" where
  "digit_char n = ''0123456789abcdef'' ! n"

fun nat_toString :: "nat \<Rightarrow> string" where
  "nat_toString n = (if n < 10 then [digit_char n] else nat_toString (n div 10) @ [digit_char (n mod 10)])"

declare nat_toString.simps [simp del]

definition int_toString :: "int \<Rightarrow> string" where
  "int_toString i = (if i < 0 then CHR ''-'' # nat_toString (nat (- i)) else nat_toString (nat i))"

subsection \<open>\<^verbatim>\<open>Number(string)\<close>\<close>

text \<open>The exponent part of a decimal literal: \<^verbatim>\<open>[eE][+-]?[0-9]+\<close>, or nothing.\<close>

definition exponent_part :: "string \<Rightarrow> int option" where
  "exponent_part s =
     (case s of
        [] \<Rightarrow> Some 0
      | c # r \<Rightarrow>
          if c = CHR ''e'' \<or> c = CHR ''E'' then
            (let (neg, ds) =
                   (case r of
                      [] \<Rightarrow> (False, [])
                    | x # r' \<Rightarrow>
                        if x = CHR ''-'' then (True, r')
                        else if x = CHR ''+'' then (False, r') else (False, r))
             in if ds \<noteq> [] \<and> list_all is_digit ds
                then Some (if neg then - int (digits_value 10 ds) else int (digits_value 10 ds))
                else None)
          else None)"

definition pow10 :: "int \<Rightarrow> rat" where
  "pow10 p = (if 0 \<le> p then 10 ^ nat p else 1 / 10 ^ nat (- p))"

text \<open>An unsigned decimal literal: digits with an optional fraction and exponent, or a
  fraction starting with the dot.  At least one digit is required.\<close>

definition unsigned_decimal :: "string \<Rightarrow> rat option" where
  "unsigned_decimal s =
     (let ip = takeWhile is_digit s;
          r1 = dropWhile is_digit s;
          (fp, r2) = (case r1 of
                        [] \<Rightarrow> ([], r1)
                      | c # r \<Rightarrow> if c = CHR ''.''
                                 then (takeWhile is_digit r, dropWhile is_digit r)
                                 else ([], r1))
      in if ip = [] \<and> fp = [] then None
         else (case exponent_part r2 of
                 None \<Rightarrow> None
               | Some e \<Rightarrow> Some (of_nat (digits_value 10 (ip @ fp)) * pow10 (e - int (length fp)))))"

definition signed_decimal :: "string \<Rightarrow> jsnum" where
  "signed_decimal s =
     (let (neg, u) =
            (case s of
               [] \<Rightarrow> (False, s)
             | c # r \<Rightarrow> if c = CHR ''-'' then (True, r)
                        else if c = CHR ''+'' then (False, r) else (False, s))
      in if u = ''Infinity'' then (if neg then NInf else PInf)
         else (case unsigned_decimal u of
                 None \<Rightarrow> NaN
               | Some q \<Rightarrow> round_double (if neg then - q else q)))"

definition radix_literal :: "nat \<Rightarrow> (char \<Rightarrow> bool) \<Rightarrow> string \<Rightarrow> jsnum" where
  "radix_literal base ok ds =
     (if ds \<noteq> [] \<and> list_all ok ds then round_double (of_nat (digits_value base ds)) else NaN)"

text \<open>\<^verbatim>\<open>Number(s)\<close> for a string: surrounding white space is dropped, the empty string
  is 0, then a hexadecimal, octal or binary integer or a signed decimal literal is read;
  anything else is \<^verbatim>\<open>NaN\<close>.\<close>

definition string_toNumber :: "string \<Rightarrow> jsnum" where
  "string_toNumber s =
     (let t = trim s
      in if t = [] then Fin 0
         else if startsWith t ''0x'' \<or> startsWith t ''0X'' then radix_literal 16 is_hex_digit (drop 2 t)
         else if startsWith t ''0o'' \<or> startsWith t ''0O'' then radix_literal 8 (\<lambda>c. c \<in> set ''01234567'') (drop 2 t)
         else if startsWith t ''0b'' \<or> startsWith t ''0B'' then radix_literal 2 (\<lambda>c. c \<in> set ''01'') (drop 2 t)
         else signed_decimal t)"


subsection \<open>Fixed patterns\<close>

text \<open>\<open>take_class ok n s\<close> reads exactly \<open>n\<close> characters of the class \<open>ok\<close> from the front
  of \<open>s\<close> and returns the rest; \<open>take_one cs s\<close> reads one character out of \<open>cs\<close>.\<close>

fun take_class :: "(char \<Rightarrow> bool) \<Rightarrow> nat \<Rightarrow> string \<Rightarrow> string option" where
  "take_class ok n s =
     (if n = 0 then Some s
      else (case s of [] \<Rightarrow> None | c # cs \<Rightarrow> if ok c then take_class ok (n - 1) cs else None))"

declare take_class.simps [simp del]

definition take_one :: "string \<Rightarrow> string \<Rightarrow> string option" where
  "take_one cls s = (case s of [] \<Rightarrow> None | c # cs \<Rightarrow> if c \<in> set cls then Some cs else None)"

text \<open>\<^verbatim>\<open>[0-9]{4}-[0-9]{2}-[0-9]{2}\<close>\<close>

definition date_prefix :: "string \<Rightarrow> string option" where
  "date_prefix s =
     Option.bind (take_class is_digit 4 s) (\<lambda>r.
     Option.bind (take_one ''-'' r) (\<lambda>r.
     Option.bind (take_class is_digit 2 r) (\<lambda>r.
     Option.bind (take_one ''-'' r) (\<lambda>r.
     take_class is_digit 2 r))))"

text \<open>\<^verbatim>\<open>[0-9]{2}:[0-9]{2}\<close>\<close>

definition hh_mm_prefix :: "string \<Rightarrow> string option" where
  "hh_mm_prefix s =
     Option.bind (take_class is_digit 2 s) (\<lambda>r.
     Option.bind (take_one '':'' r) (\<lambda>r.
     take_class is_digit 2 r))"

text \<open>\<^verbatim>\<open>[0-9]{2}:[0-9]{2}:[0-9]{2}\<close>\<close>

definition clock_prefix :: "string \<Rightarrow> string option" where
  "clock_prefix s =
     Option.bind (hh_mm_prefix s) (\<lambda>r.
     Option.bind (take_one '':'' r) (\<lambda>r.
     take_class is_digit 2 r))"

text \<open>\<^verbatim>\<open>(Z|z|(\+|-)[0-9]{2}:[0-9]{2})\<close>\<close>

definition zone_prefix :: "string \<Rightarrow> string option" where
  "zone_prefix s =
     (case s of
        [] \<Rightarrow> None
      | c # cs \<Rightarrow>
          if c \<in> set ''Zz'' then Some cs
          else if c \<in> set ''+-'' then hh_mm_prefix cs
          else None)"

text \<open>\<^verbatim>\<open>/^[0-9]{4}-[0-9]{2}-[0-9]{2}(T|t)[0-9]{2}:[0-9]{2}:[0-9]{2}(Z|z|(\+|-)[0-9]{2}:[0-9]{2})$/\<close>,
  the pattern of the format \<^verbatim>\<open>date-time\<close> and of \<^verbatim>\<open>castAsComparable\<close>.\<close>

definition date_time_regex :: "string \<Rightarrow> bool" where
  "date_time_regex s =
     (Option.bind (date_prefix s) (\<lambda>r.
      Option.bind (take_one ''Tt'' r) (\<lambda>r.
      Option.bind (clock_prefix r) zone_prefix)) = Some [])"

text \<open>\<^verbatim>\<open>/^[0-9]{4}-[0-9]{2}-[0-9]{2}$/\<close>\<close>

definition date_regex :: "string \<Rightarrow> bool" where
  "date_regex s = (date_prefix s = Some [])"

text \<open>\<^verbatim>\<open>/^[0-9]{2}:[0-9]{2}:[0-9]{2}(Z|z|(\+|-)[0-9]{2}:[0-9]{2})$/\<close>\<close>

definition time_regex :: "string \<Rightarrow> bool" where
  "time_regex s = (Option.bind (clock_prefix s) zone_prefix = Some [])"

text \<open>\<^verbatim>\<open>/^[0-9a-fA-F]{8}-[0-9a-fA-F]{4}-[0-9a-fA-F]{4}-[0-9a-fA-F]{4}-[0-9a-fA-F]{12}$/\<close>\<close>

definition uuid_regex :: "string \<Rightarrow> bool" where
  "uuid_regex s =
     (Option.bind (take_class is_hex_digit 8 s) (\<lambda>r.
      Option.bind (take_one ''-'' r) (\<lambda>r.
      Option.bind (take_class is_hex_digit 4 r) (\<lambda>r.
      Option.bind (take_one ''-'' r) (\<lambda>r.
      Option.bind (take_class is_hex_digit 4 r) (\<lambda>r.
      Option.bind (take_one ''-'' r) (\<lambda>r.
      Option.bind (take_class is_hex_digit 4 r) (\<lambda>r.
      Option.bind (take_one ''-'' r) (\<lambda>r.
      take_class is_hex_digit 12 r)))))))) = Some [])"

section \<open>Schemas, the OpenAPI document and errors\<close>

text \<open>
  A schema node.  The keywords that hold schemas are the arguments of the constructor,
  the others are collected in the record \<open>constraints\<close>; an absent keyword is \<open>None\<close>.
  The numeric keywords hold numbers, \<^verbatim>\<open>type\<close>, \<^verbatim>\<open>pattern\<close>,
  \<^verbatim>\<open>format\<close> and \<^verbatim>\<open>$ref\<close> hold strings.
\<close>

record constraints =
  ref :: "string option"
  type :: "string option"
  maxItems :: "jsnum option"
  minItems :: "jsnum option"
  maxLength :: "jsnum option"
  minLength :: "jsnum option"
  enum :: "json list option"
  pattern :: "string option"
  format :: "string option"
  maximum :: "jsnum option"
  minimum :: "jsnum option"
  exclusiveMaximum :: "jsnum option"
  exclusiveMinimum :: "jsnum option"

datatype schema =
  Schema (oneOf: "schema list option") (anyOf: "schema list option") (allOf: "schema list option")
         (items: "schema option") (properties: "(string \<times> schema) list option")
         (constraints: constraints)

record parameter =
  param_ref :: "string option"
  param_in :: "string option"
  param_name :: "string option"
  param_required :: "bool option"
  param_schema :: "schema option"

record mediaType =
  media_schema :: "schema option"

record responseSpec =
  response_ref :: "string option"
  content :: "(string \<times> mediaType) list option"

record operation =
  op_parameters :: "parameter list option"
  responses :: "(string \<times> responseSpec) list option"

text \<open>A path item: its shared parameters, and its operations by lower-case method name.\<close>

record pathItem =
  path_parameters :: "parameter list option"
  operations :: "(string \<times> operation) list"

record components =
  schemas :: "(string \<times> schema) list option"

record openapi =
  paths :: "(string \<times> pathItem) list"
  components :: "components option"

text \<open>
  What the code throws.  The \<^verbatim>\<open>Error\<close> objects of the validator are told apart by
  their message; \<open>ThrownUndefined\<close> is the value \<^verbatim>\<open>undefined\<close> itself, thrown by
  \<^verbatim>\<open>throw error\<close> when the variable was never assigned; \<open>TypeError\<close> is raised by
  the runtime (a property of \<^verbatim>\<open>undefined\<close> or \<^verbatim>\<open>null\<close> is read, or a
  value that is not a function is called); \<open>ExternalError\<close> is an \<^verbatim>\<open>Error\<close>
  raised by a collaborator.
\<close>

datatype error =
    InvalidSchemaDefinition schema
  | ValidationError schema json string "string option"
  | ThrownUndefined
  | TypeError string
  | ExternalError string
  | InvalidInvoke
  | SpecNotFound string
  | InvalidMethod string
  | ParameterRequired string
  | ContentTypeNotSupported string
  | NoMediaTypeDefinition string
  | StatusDiffers json json
  | HeadersDiffer
  | HeaderDiffers json json
  | BodyDiffers json json
  | InvalidSpecification
  | InvalidTestSet

text \<open>
  Modelled from the spec: the answer of the transport, whose source is not at hand, to
  \<^verbatim>\<open>request(method, path, headers, body)\<close>: a status, the headers by name and the
  body.
\<close>

record response =
  status :: json
  headers :: "(string \<times> json) list"
  body :: json

text \<open>
  The collaborators and the built-in functions of the platform that the model takes as
  parameters: regular expressions given by a schema, the fixed patterns of the formats
  \<^verbatim>\<open>duration\<close>, \<^verbatim>\<open>email\<close>, \<^verbatim>\<open>hostname\<close>, \<^verbatim>\<open>ipv4\<close>,
  \<^verbatim>\<open>ipv6\<close> and \<^verbatim>\<open>uri\<close>, the decimal representation of a number that is not
  an integer below \<open>10 ^ 21\<close>, the decoding of a buffer, the date parser on strings
  outside the ECMAScript date-time format, \<^verbatim>\<open>encodeURIComponent\<close>, Base64, the
  JSONPath library (\<^verbatim>\<open>nodes\<close> returns each match with its location) and the HTTP
  transport, which answers a request in a state \<open>'w\<close> of the world and returns the next
  state.
\<close>

record 'w platform =
  regexp_test :: "string \<Rightarrow> string \<Rightarrow> error + bool"
  format_test :: "string \<Rightarrow> string \<Rightarrow> bool"
  finite_toString :: "rat \<Rightarrow> string"
  utf8_decode :: "string \<Rightarrow> string"
  date_parse_other :: "string \<Rightarrow> jsnum"
  encodeURIComponent :: "string \<Rightarrow> error + string"
  base64_encode :: "string \<Rightarrow> string"
  jsonpath_nodes :: "json \<Rightarrow> string \<Rightarrow> error + (string list \<times> json) list"
  http_request :: "'w \<Rightarrow> string \<Rightarrow> string \<Rightarrow> (string \<times> json) list option \<Rightarrow> json
                     \<Rightarrow> (error + response) \<times> 'w"

subsection \<open>Conversions\<close>

fun typeof :: "json \<Rightarrow> string" where
  "typeof JUndefined = ''undefined''"
| "typeof JNull = ''object''"
| "typeof (JBool b) = ''boolean''"
| "typeof (JNum n) = ''number''"
| "typeof (JStr s) = ''string''"
| "typeof (JArr xs) = ''object''"
| "typeof (JObj kvs) = ''object''"
| "typeof (JBuffer bs) = ''object''"

text \<open>\<^verbatim>\<open>x == null\<close>\<close>

definition is_nullish :: "json \<Rightarrow> bool" where
  "is_nullish x = (x = JUndefined \<or> x = JNull)"

fun join :: "string \<Rightarrow> string list \<Rightarrow> string" where
  "join sep [] = []"
| "join sep [x] = x"
| "join sep (x # y # ys) = x @ sep @ join sep (y # ys)"

definition number_toString :: "'w platform \<Rightarrow> jsnum \<Rightarrow> string" where
  "number_toString env n =
     (case n of
        NaN \<Rightarrow> ''NaN''
      | PInf \<Rightarrow> ''Infinity''
      | NInf \<Rightarrow> ''-Infinity''
      | Fin q \<Rightarrow>
          if of_int \<lfloor>q\<rfloor> = q \<and> \<bar>q\<bar> < 10 ^ 21 then int_toString \<lfloor>q\<rfloor>
          else finite_toString env q)"

text \<open>The conversion of a value to a string, as in a template or a replacement.\<close>

fun js_toString :: "'w platform \<Rightarrow> json \<Rightarrow> string" where
  "js_toString env JUndefined = ''undefined''"
| "js_toString env JNull = ''null''"
| "js_toString env (JBool b) = (if b then ''true'' else ''false'')"
| "js_toString env (JNum n) = number_toString env n"
| "js_toString env (JStr s) = s"
| "js_toString env (JArr xs) =
     join '','' (map (\<lambda>x. if is_nullish x then [] else js_toString env x) xs)"
| "js_toString env (JObj kvs) = ''[object Object]''"
| "js_toString env (JBuffer bs) = utf8_decode env bs"

text \<open>The method call \<^verbatim>\<open>x.toString()\<close>.\<close>

definition call_toString :: "'w platform \<Rightarrow> json \<Rightarrow> error + string" where
  "call_toString env x =
     (if is_nullish x then Inl (TypeError ''toString'') else Inr (js_toString env x))"

text \<open>\<^verbatim>\<open>Number(x)\<close>\<close>

fun js_toNumber :: "'w platform \<Rightarrow> json \<Rightarrow> jsnum" where
  "js_toNumber env JUndefined = NaN"
| "js_toNumber env JNull = Fin 0"
| "js_toNumber env (JBool b) = Fin (if b then 1 else 0)"
| "js_toNumber env (JNum n) = n"
| "js_toNumber env (JStr s) = string_toNumber s"
| "js_toNumber env x = string_toNumber (js_toString env x)"

text \<open>The own enumerable properties of a value of type object, as
  \<^verbatim>\<open>Object.keys\<close> lists them, each with its value.\<close>

fun entries :: "json \<Rightarrow> (string \<times> json) list" where
  "entries (JObj kvs) = kvs"
| "entries (JArr xs) = zip (map nat_toString [0..<length xs]) xs"
| "entries (JBuffer bs) =
     zip (map nat_toString [0..<length bs]) (map (\<lambda>c. JNum (Fin (of_nat (of_char c)))) bs)"
| "entries _ = []"


section \<open>The component resolver\<close>

definition getComponent :: "openapi \<Rightarrow> string \<Rightarrow> schema option" where
  "getComponent spec path =
     (case components spec of
        None \<Rightarrow> None
      | Some cs \<Rightarrow>
          (case schemas cs of
             None \<Rightarrow> None
           | Some comps \<Rightarrow>
               if startsWith path ''#/components/schemas/'' then
                 (let componentName = drop (length ''#/components/schemas/'') path
                  in map_of comps componentName)
               else None))"

text \<open>The resolution of the schema of an array's items and of an object's property: the
  referenced component when there is one, the schema itself otherwise.\<close>

definition resolve_value_schema :: "openapi \<Rightarrow> schema \<Rightarrow> schema" where
  "resolve_value_schema spec valueSchema =
     (case ref (constraints valueSchema) of
        None \<Rightarrow> valueSchema
      | Some r \<Rightarrow> (case getComponent spec r of None \<Rightarrow> valueSchema | Some s \<Rightarrow> s))"

text \<open>The resolution of the node under validation: a reference that does not resolve
  makes the schema invalid.\<close>

definition resolve_node :: "openapi \<Rightarrow> schema \<Rightarrow> error + schema" where
  "resolve_node spec schema =
     (case ref (constraints schema) of
        None \<Rightarrow> Inr schema
      | Some r \<Rightarrow>
          (case getComponent spec r of
             None \<Rightarrow> Inl (InvalidSchemaDefinition schema)
           | Some s \<Rightarrow> Inr s))"

section \<open>The schema validator\<close>

text \<open>\<^verbatim>\<open>xs.forEach(f)\<close> for a callback that may throw: the first error ends the loop.\<close>

fun forEach :: "('a \<Rightarrow> error + unit) \<Rightarrow> 'a list \<Rightarrow> error + unit" where
  "forEach f [] = Inr ()"
| "forEach f (x # xs) = (case f x of Inl e \<Rightarrow> Inl e | Inr u \<Rightarrow> forEach f xs)"

lemma forEach_cong [fundef_cong]:
  "xs = ys \<Longrightarrow> (\<And>x. x \<in> set ys \<Longrightarrow> f x = g x) \<Longrightarrow> forEach f xs = forEach g ys"
  by (induction ys arbitrary: xs) (auto split: sum.splits)

definition succeeds :: "error + 'a \<Rightarrow> bool" where
  "succeeds r = (case r of Inl e \<Rightarrow> False | Inr v \<Rightarrow> True)"

text \<open>The measure of the recursion on values.\<close>

fun weight :: "json \<Rightarrow> nat" where
  "weight (JArr xs) = Suc (sum_list (map weight xs))"
| "weight (JObj kvs) = Suc (sum_list (map (\<lambda>kv. weight (snd kv)) kvs))"
| "weight (JBuffer bs) = 1"
| "weight _ = 0"

text \<open>The checks of \<^verbatim>\<open>type: string\<close>.\<close>

definition format_mismatch :: "'w platform \<Rightarrow> string \<Rightarrow> string \<Rightarrow> bool" where
  "format_mismatch env fmt data =
     (if fmt = ''date-time'' \<and> \<not> date_time_regex data then True
      else if fmt = ''date'' \<and> \<not> date_regex data then True
      else if fmt = ''time'' \<and> \<not> time_regex data then True
      else if fmt = ''duration'' \<and> \<not> format_test env ''duration'' data then True
      else if fmt = ''email'' \<and> \<not> format_test env ''email'' data then True
      else if fmt = ''hostname'' \<and> \<not> format_test env ''hostname'' data then True
      else if fmt = ''ipv4'' \<and> \<not> format_test env ''ipv4'' data then True
      else if fmt = ''ipv6'' \<and> \<not> format_test env ''ipv6'' data then True
      else if fmt = ''uri'' \<and> \<not> format_test env ''uri'' data then True
      else if fmt = ''uuid'' \<and> \<not> uuid_regex data then True
      else False)"

definition validate_string_value ::
  "'w platform \<Rightarrow> schema \<Rightarrow> json \<Rightarrow> string \<Rightarrow> string option \<Rightarrow> error + unit" where
  "validate_string_value env schema data str key =
     (let c = constraints schema in
      if (case maxLength c of None \<Rightarrow> False | Some m \<Rightarrow> js_gt (Fin (of_nat (length str))) m)
      then Inl (ValidationError schema data ''The value is above the maximum length.'' key)
      else if (case minLength c of None \<Rightarrow> False | Some m \<Rightarrow> js_lt (Fin (of_nat (length str))) m)
      then Inl (ValidationError schema data ''The value is below the minimum length.'' key)
      else if (case enum c of None \<Rightarrow> False | Some vs \<Rightarrow> JStr str \<notin> set vs)
      then Inl (ValidationError schema data ''The value is not included in the available values.'' key)
      else
        (case (case pattern c of None \<Rightarrow> Inr True | Some p \<Rightarrow> regexp_test env p str) of
           Inl e \<Rightarrow> Inl e
         | Inr matches \<Rightarrow>
             if \<not> matches
             then Inl (ValidationError schema data ''The value does not follow format.'' key)
             else if (case format c of None \<Rightarrow> False | Some fmt \<Rightarrow> format_mismatch env fmt str)
             then Inl (ValidationError schema data ''Format mismatch.'' None)
             else Inr ()))"

definition validate_string ::
  "'w platform \<Rightarrow> schema \<Rightarrow> json \<Rightarrow> string option \<Rightarrow> bool \<Rightarrow> error + unit" where
  "validate_string env schema data key enableCast =
     (case (if enableCast then map_sum id JStr (call_toString env data) else Inr data) of
        Inl e \<Rightarrow> Inl e
      | Inr data' \<Rightarrow>
          (case data' of
             JStr str \<Rightarrow> validate_string_value env schema data' str key
           | _ \<Rightarrow> Inl (ValidationError schema data' ''Type mismatch'' key)))"

text \<open>The bounds of \<^verbatim>\<open>type: number\<close> and \<^verbatim>\<open>type: integer\<close>, in the order
  of the code.\<close>

definition validate_bounds :: "schema \<Rightarrow> json \<Rightarrow> jsnum \<Rightarrow> string option \<Rightarrow> error + unit" where
  "validate_bounds schema data n key =
     (let c = constraints schema in
      if (case maximum c of None \<Rightarrow> False | Some m \<Rightarrow> js_gt n m)
      then Inl (ValidationError schema data ''The value is above the maximum value.'' key)
      else if (case minimum c of None \<Rightarrow> False | Some m \<Rightarrow> js_lt n m)
      then Inl (ValidationError schema data ''The value is below the minimum value.'' key)
      else if (case exclusiveMaximum c of None \<Rightarrow> False | Some m \<Rightarrow> js_ge n m)
      then Inl (ValidationError schema data ''The value is above the maximum value.'' key)
      else if (case exclusiveMinimum c of None \<Rightarrow> False | Some m \<Rightarrow> js_lt n m)
      then Inl (ValidationError schema data ''The value is below the minimum value.'' key)
      else Inr ())"

definition validate_number ::
  "'w platform \<Rightarrow> schema \<Rightarrow> json \<Rightarrow> string option \<Rightarrow> bool \<Rightarrow> error + unit" where
  "validate_number env schema data key enableCast =
     (let data' = (if enableCast then JNum (js_toNumber env data) else data) in
      case data' of
        JNum n \<Rightarrow> validate_bounds schema data' n key
      | _ \<Rightarrow> Inl (ValidationError schema data' ''Type mismatch.'' key))"

definition validate_integer ::
  "'w platform \<Rightarrow> schema \<Rightarrow> json \<Rightarrow> string option \<Rightarrow> error + unit" where
  "validate_integer env schema data key =
     (case data of
        JNum n \<Rightarrow>
          if CHR ''.'' \<in> set (number_toString env n)
          then Inl (ValidationError schema data ''Type mismatch.'' key)
          else validate_bounds schema data n key
      | _ \<Rightarrow> Inl (ValidationError schema data ''Type mismatch.'' key))"

definition validate_boolean :: "schema \<Rightarrow> json \<Rightarrow> string option \<Rightarrow> error + unit" where
  "validate_boolean schema data key =
     (case data of
        JBool b \<Rightarrow> Inr ()
      | _ \<Rightarrow> Inl (ValidationError schema data ''Type mismatch.'' key))"

definition validate_null :: "schema \<Rightarrow> json \<Rightarrow> string option \<Rightarrow> error + unit" where
  "validate_null schema data key =
     (if \<not> is_nullish data then Inl (ValidationError schema data ''Type mismatch.'' key)
      else Inr ())"

text \<open>The lengths of \<^verbatim>\<open>type: array\<close>.\<close>

definition validate_lengths :: "schema \<Rightarrow> json \<Rightarrow> nat \<Rightarrow> string option \<Rightarrow> error + unit" where
  "validate_lengths schema data n key =
     (let c = constraints schema in
      if (case maxItems c of None \<Rightarrow> False | Some m \<Rightarrow> js_gt (Fin (of_nat n)) m)
      then Inl (ValidationError schema data ''The value is above the maximum length.'' key)
      else if (case minItems c of None \<Rightarrow> False | Some m \<Rightarrow> js_lt (Fin (of_nat n)) m)
      then Inl (ValidationError schema data ''The value is below the maximum length.'' key)
      else Inr ())"

lemma weight_entries: "(k, v) \<in> set (entries d) \<Longrightarrow> weight v < weight d"
proof (cases d)
  case (JArr xs)
  assume "(k, v) \<in> set (entries d)"
  with JArr have "v \<in> set xs" by (auto dest: set_zip_rightD)
  then have "weight v \<le> sum_list (map weight xs)" by (simp add: member_le_sum_list)
  with JArr show ?thesis by simp
next
  case (JObj kvs)
  assume "(k, v) \<in> set (entries d)"
  with JObj have "weight (snd (k, v)) \<in> set (map (\<lambda>kv. weight (snd kv)) kvs)" by force
  then have "weight v \<le> sum_list (map (\<lambda>kv. weight (snd kv)) kvs)"
    using member_le_sum_list by fastforce
  with JObj show ?thesis by simp
next
  case (JBuffer bs)
  assume "(k, v) \<in> set (entries d)"
  with JBuffer have "v \<in> set (map (\<lambda>c. JNum (Fin (of_nat (of_char c)))) bs)"
    by (auto dest: set_zip_rightD)
  then have "weight v = 0" by auto
  with JBuffer show ?thesis by simp
qed simp_all

lemma weight_element: "v \<in> set xs \<Longrightarrow> weight v < Suc (sum_list (map weight xs))"
  by (simp add: member_le_sum_list le_imp_less_Suc)

lemma size_branch: "b \<in> set bs \<Longrightarrow> size b < Suc (size_list size bs)"
  by (simp add: size_list_estimation' le_imp_less_Suc)

lemma size_oneOf: "oneOf s = Some bs \<Longrightarrow> b \<in> set bs \<Longrightarrow> size b < size s"
  by (cases s) (auto dest: size_branch [of b bs])

lemma size_anyOf: "anyOf s = Some bs \<Longrightarrow> b \<in> set bs \<Longrightarrow> size b < size s"
  by (cases s) (auto dest: size_branch [of b bs])

lemma size_allOf: "allOf s = Some bs \<Longrightarrow> b \<in> set bs \<Longrightarrow> size b < size s"
  by (cases s) (auto dest: size_branch [of b bs])

text \<open>
  \<^verbatim>\<open>validateJson(data, schema, key, enableCast)\<close>.  The composition keywords come
  first, and only the first of \<^verbatim>\<open>oneOf\<close>, \<^verbatim>\<open>anyOf\<close>, \<^verbatim>\<open>allOf\<close> that is
  present is looked at.  The error of a failed branch is assigned to the parameter of the
  \<^verbatim>\<open>catch\<close> clause, which hides the variable \<^verbatim>\<open>error\<close> declared before the
  loop, so \<^verbatim>\<open>throw error\<close> throws \<^verbatim>\<open>undefined\<close>.  The code then goes on
  with the reference and the type of the same node: \<open>validateJson_type\<close> is the rest of
  the function body from the test of \<^verbatim>\<open>schema.type\<close> on, for the resolved node.
\<close>

function validateJson ::
    "'w platform \<Rightarrow> openapi \<Rightarrow> json \<Rightarrow> schema \<Rightarrow> string option \<Rightarrow> bool \<Rightarrow> error + unit"
  and validateJson_type ::
    "'w platform \<Rightarrow> openapi \<Rightarrow> json \<Rightarrow> schema \<Rightarrow> string option \<Rightarrow> bool \<Rightarrow> error + unit"
where
  "validateJson env spec data schema key enableCast =
     (case
        (case oneOf schema of
           Some bs \<Rightarrow>
             if length bs = 0 then Inl (InvalidSchemaDefinition schema)
             else if \<not> list_ex (\<lambda>b. succeeds (validateJson env spec data b key False)) bs
             then Inl ThrownUndefined
             else Inr ()
         | None \<Rightarrow>
             (case anyOf schema of
                Some bs \<Rightarrow>
                  if length bs = 0 then Inl (InvalidSchemaDefinition schema)
                  else if \<not> list_ex (\<lambda>b. succeeds (validateJson env spec data b key False)) bs
                  then Inl ThrownUndefined
                  else Inr ()
              | None \<Rightarrow>
                  (case allOf schema of
                     Some bs \<Rightarrow>
                       if length bs = 0 then Inl (InvalidSchemaDefinition schema)
                       else if \<not> list_all (\<lambda>b. succeeds (validateJson env spec data b key False)) bs
                       then Inl ThrownUndefined
                       else Inr ()
                   | None \<Rightarrow> Inr ())))
      of
        Inl e \<Rightarrow> Inl e
      | Inr u \<Rightarrow>
          (case resolve_node spec schema of
             Inl e \<Rightarrow> Inl e
           | Inr resolved \<Rightarrow> validateJson_type env spec data resolved key enableCast))"
| "validateJson_type env spec data schema key enableCast =
     (case type (constraints schema) of
        None \<Rightarrow> Inl (InvalidSchemaDefinition schema)
      | Some t \<Rightarrow>
          if t = ''array'' then
            (case data of
               JArr xs \<Rightarrow>
                 (case validate_lengths schema data (length xs) key of
                    Inl e \<Rightarrow> Inl e
                  | Inr u \<Rightarrow>
                      (case items schema of
                         None \<Rightarrow> Inr ()
                       | Some valueSchema \<Rightarrow>
                           forEach
                             (\<lambda>value. validateJson env spec value
                                        (resolve_value_schema spec valueSchema) None False)
                             xs))
             | _ \<Rightarrow> Inl (ValidationError schema data ''Type mismatch.'' key))
          else if t = ''object'' then
            (if is_nullish data \<or> typeof data \<noteq> ''object''
             then Inl (ValidationError schema data ''Type mismatch.'' key)
             else
               forEach
                 (\<lambda>(key, value).
                    case properties schema of
                      None \<Rightarrow> Inr ()
                    | Some props \<Rightarrow>
                        (case map_of props key of
                           None \<Rightarrow>
                             Inl (ValidationError schema value ''Schema not found.'' (Some key))
                         | Some valueSchema \<Rightarrow>
                             validateJson env spec value
                               (resolve_value_schema spec valueSchema) (Some key) False))
                 (entries data))
          else if t = ''string'' then validate_string env schema data key enableCast
          else if t = ''number'' then validate_number env schema data key enableCast
          else if t = ''integer'' then validate_integer env schema data key
          else if t = ''boolean'' then validate_boolean schema data key
          else if t = ''null'' then validate_null schema data key
          else Inr ())"
  by pat_completeness auto
termination
  by (relation "measures
        [\<lambda>x. case x of
                Inl (env, spec, data, schema, key, enableCast) \<Rightarrow> weight data
              | Inr (env, spec, data, schema, key, enableCast) \<Rightarrow> weight data,
         \<lambda>x. case x of
                Inl (env, spec, data, schema, key, enableCast) \<Rightarrow> Suc (size schema)
              | Inr (env, spec, data, schema, key, enableCast) \<Rightarrow> 0]")
     (auto simp: weight_entries weight_element size_oneOf size_anyOf size_allOf)

declare validateJson.simps [simp del] validateJson_type.simps [simp del]


section \<open>The expression resolver\<close>

subsection \<open>The patterns of the resolver\<close>

text \<open>
  The matches of \<^verbatim>\<open>/{([^}]+)}/g\<close> from left to right.  A match starts at an opening
  brace that is followed by at least one character other than the closing brace and then
  by a closing brace; the search goes on behind the match.  An opening brace that starts
  no match is ordinary text.
\<close>

datatype segment = Lit char | Group string

definition not_closing :: "char \<Rightarrow> bool" where
  "not_closing c = (c \<noteq> CHR ''}'')"

function segments :: "string \<Rightarrow> segment list" where
  "segments [] = []"
| "segments (c # cs) =
     (if c = CHR ''{'' \<and> takeWhile not_closing cs \<noteq> [] \<and> dropWhile not_closing cs \<noteq> []
      then Group (takeWhile not_closing cs) # segments (tl (dropWhile not_closing cs))
      else Lit c # segments cs)"
  by pat_completeness auto
termination
  by (relation "measure length")
    (auto simp: less_Suc_eq_le intro: le_trans [OF diff_le_self length_dropWhile_le])

declare segments.simps [simp del]

definition groups :: "string \<Rightarrow> string list" where
  "groups s = concat (map (\<lambda>g. case g of Lit c \<Rightarrow> [] | Group t \<Rightarrow> [t]) (segments s))"

text \<open>\<^verbatim>\<open>/{.+}/.test(s)\<close>: an opening brace, at least one character, a closing brace,
  with no line terminator in between.\<close>

fun has_brace_span :: "string \<Rightarrow> bool" where
  "has_brace_span [] = False"
| "has_brace_span (c # cs) =
     (c = CHR ''{'' \<and> CHR ''}'' \<in> set (drop 1 (takeWhile (\<lambda>x. \<not> is_line_terminator x) cs))
      \<or> has_brace_span cs)"

text \<open>The characters of an operand, \<^verbatim>\<open>[a-zA-Z0-9_.*\(\)\[\]@<>=!$]\<close>, of the path in
  a context reference (the same without the dollar), and of an operator,
  \<^verbatim>\<open>[=><!]\<close>.\<close>

definition path_char :: "char \<Rightarrow> bool" where
  "path_char c = (is_lower c \<or> is_upper c \<or> is_digit c \<or> c \<in> set ''_.*()[]@<>=!'')"

definition operand_char :: "char \<Rightarrow> bool" where
  "operand_char c = (path_char c \<or> c = CHR ''$'')"

definition operator_char :: "char \<Rightarrow> bool" where
  "operator_char c = (c \<in> set ''=><!'')"

fun split_on :: "char \<Rightarrow> string \<Rightarrow> string list" where
  "split_on d [] = [[]]"
| "split_on d (c # cs) =
     (if c = d then [] # split_on d cs
      else (case split_on d cs of [] \<Rightarrow> [[c]] | p # ps \<Rightarrow> (c # p) # ps))"

text \<open>
  \<^verbatim>\<open>/^([a-zA-Z0-9_.*\(\)\[\]@<>=!$]+) ([=><!]+) ([a-zA-Z0-9_.*\(\)\[\]@<>=!$]+)$/\<close>: no
  class holds the space, so the target matches when its two spaces cut it into an
  operand, an operator and an operand.
\<close>

definition comparison_parts :: "string \<Rightarrow> (string \<times> string \<times> string) option" where
  "comparison_parts target =
     (case split_on CHR '' '' target of
        [operand1, operator, operand2] \<Rightarrow>
          if operand1 \<noteq> [] \<and> list_all operand_char operand1
             \<and> operator \<noteq> [] \<and> list_all operator_char operator
             \<and> operand2 \<noteq> [] \<and> list_all operand_char operand2
          then Some (operand1, operator, operand2)
          else None
      | _ \<Rightarrow> None)"

text \<open>\<^verbatim>\<open>/^context\[([0-9]{1,})\]\.([a-zA-Z0-9_.*\(\)\[\]@<>=!]+)$/\<close>: the index and the
  path of a context reference.\<close>

definition context_reference :: "string \<Rightarrow> (string \<times> string) option" where
  "context_reference definition =
     (if startsWith definition ''context['' then
        (let r = drop (length ''context['') definition;
             index = takeWhile is_digit r;
             r' = dropWhile is_digit r
         in if index \<noteq> [] \<and> startsWith r' ''].'' \<and> drop 2 r' \<noteq> []
               \<and> list_all path_char (drop 2 r')
            then Some (index, drop 2 r')
            else None)
      else None)"

text \<open>\<^verbatim>\<open>/^[0-9.]+$/\<close>\<close>

definition digits_and_dots :: "string \<Rightarrow> bool" where
  "digits_and_dots s = (s \<noteq> [] \<and> list_all (\<lambda>c. is_digit c \<or> c = CHR ''.'') s)"

subsection \<open>Dates\<close>

definition is_leap_year :: "int \<Rightarrow> bool" where
  "is_leap_year y = (y mod 4 = 0 \<and> (y mod 100 \<noteq> 0 \<or> y mod 400 = 0))"

definition days_in_month :: "int \<Rightarrow> int \<Rightarrow> int" where
  "days_in_month y m =
     (if m = 2 then (if is_leap_year y then 29 else 28)
      else if m \<in> {4, 6, 9, 11} then 30 else 31)"

text \<open>The number of days from the first of January 1970 to a day of the proleptic
  Gregorian calendar.\<close>

definition days_from_epoch :: "int \<Rightarrow> int \<Rightarrow> int \<Rightarrow> int" where
  "days_from_epoch y m d =
     (let y' = (if m \<le> 2 then y - 1 else y);
          era = y' div 400;
          yoe = y' - era * 400;
          mp = (m + 9) mod 12;
          doy = (153 * mp + 2) div 5 + d - 1;
          doe = yoe * 365 + yoe div 4 - yoe div 100 + doy
      in era * 146097 + doe - 719468)"

definition field :: "string \<Rightarrow> nat \<Rightarrow> nat \<Rightarrow> int" where
  "field s i n = int (digits_value 10 (take n (drop i s)))"

text \<open>
  \<^verbatim>\<open>new Date(s).getTime()\<close> for a string that matches the date-time pattern.  With an
  upper-case \<^verbatim>\<open>T\<close>, a zone \<^verbatim>\<open>Z\<close> or an offset, and every field in its range
  the string is in the date-time format of ECMAScript and the result is the number of
  milliseconds since the epoch; what the parser makes of the other strings is left to the
  platform.
\<close>

definition date_getTime :: "'w platform \<Rightarrow> string \<Rightarrow> jsnum" where
  "date_getTime env s =
     (let y = field s 0 4; m = field s 5 2; d = field s 8 2;
          hh = field s 11 2; mi = field s 14 2; ss = field s 17 2;
          z = drop 19 s;
          offset = (if z = ''Z'' then 0
                    else (if take 1 z = ''-'' then - 1 else 1) * (field z 1 2 * 60 + field z 4 2))
      in if take 1 (drop 10 s) = ''T'' \<and> z \<noteq> ''z''
            \<and> 1 \<le> m \<and> m \<le> 12 \<and> 1 \<le> d \<and> d \<le> days_in_month y m
            \<and> hh \<le> 23 \<and> mi \<le> 59 \<and> ss \<le> 59
            \<and> (z = ''Z'' \<or> field z 1 2 \<le> 23 \<and> field z 4 2 \<le> 59)
         then Fin (of_int (days_from_epoch y m d * 86400000
                            + (hh * 3600 + mi * 60 + ss) * 1000 - offset * 60000))
         else date_parse_other env s)"

subsection \<open>Comparison of values\<close>

definition is_object :: "json \<Rightarrow> bool" where
  "is_object x = (case x of JArr xs \<Rightarrow> True | JObj kvs \<Rightarrow> True | JBuffer bs \<Rightarrow> True | _ \<Rightarrow> False)"

text \<open>The primitive value of an array, an object or a buffer is its string.\<close>

definition js_toPrimitive :: "'w platform \<Rightarrow> json \<Rightarrow> json" where
  "js_toPrimitive env x = (if is_object x then JStr (js_toString env x) else x)"

text \<open>\<^verbatim>\<open>x == y\<close> for primitive values.\<close>

definition primitive_eq :: "'w platform \<Rightarrow> json \<Rightarrow> json \<Rightarrow> bool" where
  "primitive_eq env x y =
     (if is_nullish x \<or> is_nullish y then is_nullish x \<and> is_nullish y
      else (case (x, y) of
              (JStr a, JStr b) \<Rightarrow> a = b
            | _ \<Rightarrow> js_num_eq (js_toNumber env x) (js_toNumber env y)))"

text \<open>\<^verbatim>\<open>x == y\<close>.  Two objects are equal when they are the same object, which their
  values do not tell: \<open>same\<close> says so.\<close>

definition js_eq :: "'w platform \<Rightarrow> bool \<Rightarrow> json \<Rightarrow> json \<Rightarrow> bool" where
  "js_eq env same x y =
     (if is_object x \<and> is_object y then same
      else primitive_eq env (js_toPrimitive env x) (js_toPrimitive env y))"

fun string_less :: "string \<Rightarrow> string \<Rightarrow> bool" where
  "string_less [] [] = False"
| "string_less [] (b # bs) = True"
| "string_less (a # as) [] = False"
| "string_less (a # as) (b # bs) =
     ((of_char a :: nat) < of_char b \<or> a = b \<and> string_less as bs)"

text \<open>\<^verbatim>\<open>x < y\<close>: two strings are compared code unit by code unit, anything else as
  numbers.\<close>

definition js_less :: "'w platform \<Rightarrow> json \<Rightarrow> json \<Rightarrow> bool" where
  "js_less env x y =
     (case (js_toPrimitive env x, js_toPrimitive env y) of
        (JStr a, JStr b) \<Rightarrow> string_less a b
      | (px, py) \<Rightarrow> js_lt (js_toNumber env px) (js_toNumber env py))"

text \<open>\<^verbatim>\<open>x <= y\<close>: \<^verbatim>\<open>y < x\<close> is false, and none of the two is \<^verbatim>\<open>NaN\<close>.\<close>

definition js_less_eq :: "'w platform \<Rightarrow> json \<Rightarrow> json \<Rightarrow> bool" where
  "js_less_eq env x y =
     (case (js_toPrimitive env x, js_toPrimitive env y) of
        (JStr a, JStr b) \<Rightarrow> \<not> string_less b a
      | (px, py) \<Rightarrow> js_le (js_toNumber env px) (js_toNumber env py))"

subsection \<open>The resolver\<close>

text \<open>\<^verbatim>\<open>castAsComparable(data)\<close>\<close>

definition castAsComparable :: "'w platform \<Rightarrow> json \<Rightarrow> json" where
  "castAsComparable env data =
     (if digits_and_dots (js_toString env data) then JNum (js_toNumber env data)
      else if date_time_regex (js_toString env data)
      then JNum (date_getTime env (js_toString env data))
      else if js_eq env False data (JStr ''null'') then JNull
      else data)"

text \<open>\<^verbatim>\<open>context[index]\<close> for the index as the pattern captured it: a string of digits
  names an element when it is the decimal representation of a number below the length.\<close>

definition context_at :: "json list \<Rightarrow> string \<Rightarrow> json" where
  "context_at context index =
     (let n = digits_value 10 index
      in if nat_toString n = index \<and> n < length context then context ! n else JUndefined)"

text \<open>\<^verbatim>\<open>JSONPath.query(obj, path)\<close>: the values of the nodes.\<close>

definition jsonpath_query :: "'w platform \<Rightarrow> json \<Rightarrow> string \<Rightarrow> error + json list" where
  "jsonpath_query env obj path = map_sum id (map snd) (jsonpath_nodes env obj path)"

text \<open>\<^verbatim>\<open>replaceContext(definition, context)\<close>\<close>

definition replaceContext :: "'w platform \<Rightarrow> string \<Rightarrow> json list \<Rightarrow> error + string" where
  "replaceContext env definition context =
     (case context_reference definition of
        None \<Rightarrow> Inr definition
      | Some (index, target) \<Rightarrow>
          (case jsonpath_query env (context_at context index) target of
             Inl e \<Rightarrow> Inl e
           | Inr values \<Rightarrow>
               Inr (js_toString env (if length values > 0 then hd values else JNull))))"

text \<open>\<^verbatim>\<open>replaceResponse(definition, response)\<close>: the first value found, with its
  location in the response, or the definition.\<close>

definition replaceResponse ::
  "'w platform \<Rightarrow> string \<Rightarrow> json \<Rightarrow> error + (json \<times> string list option)" where
  "replaceResponse env definition response =
     (case jsonpath_nodes env response definition of
        Inl e \<Rightarrow> Inl e
      | Inr nodes \<Rightarrow>
          Inr (if length nodes > 0 then (snd (hd nodes), Some (fst (hd nodes)))
               else (JStr definition, None)))"

text \<open>The sequence of calls that may throw.\<close>

fun mapM :: "('a \<Rightarrow> error + 'b) \<Rightarrow> 'a list \<Rightarrow> error + 'b list" where
  "mapM f [] = Inr []"
| "mapM f (x # xs) =
     (case f x of
        Inl e \<Rightarrow> Inl e
      | Inr y \<Rightarrow> (case mapM f xs of Inl e \<Rightarrow> Inl e | Inr ys \<Rightarrow> Inr (y # ys)))"

text \<open>\<^verbatim>\<open>replaceBrackets(definition, context, response)\<close> for a string; a call without
  response passes \<^verbatim>\<open>undefined\<close>.\<close>

definition replace_target :: "'w platform \<Rightarrow> json list \<Rightarrow> json \<Rightarrow> string \<Rightarrow> error + string" where
  "replace_target env context response target =
     (case replaceContext env target context of
        Inl e \<Rightarrow> Inl e
      | Inr target' \<Rightarrow>
          if \<not> is_nullish response then
            (case replaceResponse env target' response of
               Inl e \<Rightarrow> Inl e
             | Inr (v, loc) \<Rightarrow> Inr (js_toString env v))
          else Inr target')"

definition replaceBrackets :: "'w platform \<Rightarrow> string \<Rightarrow> json list \<Rightarrow> json \<Rightarrow> error + string" where
  "replaceBrackets env definition context response =
     map_sum id concat
       (mapM (\<lambda>g. case g of
                     Lit c \<Rightarrow> Inr [c]
                   | Group target \<Rightarrow> replace_target env context response target)
          (segments definition))"

text \<open>The comparison of two operands after the projection, lines 461 to 473: an operator
  that is none of the seven leaves the result true.\<close>

definition compare_operands ::
  "'w platform \<Rightarrow> string \<Rightarrow> bool \<Rightarrow> json \<Rightarrow> json \<Rightarrow> bool" where
  "compare_operands env operator same operand1 operand2 =
     (let a = castAsComparable env operand1; b = castAsComparable env operand2 in
      if operator = ''='' \<or> operator = ''=='' then js_eq env same a b
      else if operator = ''<'' then js_less env a b
      else if operator = ''<='' then js_less_eq env a b
      else if operator = ''>'' then js_less env b a
      else if operator = ''>='' then js_less_eq env b a
      else if operator = ''!='' then \<not> js_eq env same a b
      else True)"

text \<open>An operand, resolved against the context and then against the response.\<close>

definition resolve_operand ::
  "'w platform \<Rightarrow> json list \<Rightarrow> json \<Rightarrow> string \<Rightarrow> error + (json \<times> string list option)" where
  "resolve_operand env context response operand =
     (case replaceContext env operand context of
        Inl e \<Rightarrow> Inl e
      | Inr operand' \<Rightarrow> replaceResponse env operand' response)"

text \<open>The result of one group of \<^verbatim>\<open>evalBrackets\<close>: true unless the group is a
  comparison.\<close>

definition eval_target :: "'w platform \<Rightarrow> json list \<Rightarrow> json \<Rightarrow> string \<Rightarrow> error + bool" where
  "eval_target env context response target =
     (case comparison_parts target of
        None \<Rightarrow> Inr True
      | Some (operand1, operator, operand2) \<Rightarrow>
          (case resolve_operand env context response operand1 of
             Inl e \<Rightarrow> Inl e
           | Inr (v1, loc1) \<Rightarrow>
               (case resolve_operand env context response operand2 of
                  Inl e \<Rightarrow> Inl e
                | Inr (v2, loc2) \<Rightarrow>
                    Inr (compare_operands env operator (loc1 \<noteq> None \<and> loc1 = loc2) v1 v2))))"

text \<open>\<^verbatim>\<open>evalBrackets(definition, context, response)\<close>.  A definition that is neither
  a string nor \<^verbatim>\<open>null\<close> has no method \<^verbatim>\<open>replace\<close>.\<close>

definition evalBrackets :: "'w platform \<Rightarrow> json \<Rightarrow> json list \<Rightarrow> json \<Rightarrow> error + bool" where
  "evalBrackets env definition context response =
     (if is_nullish definition then Inr False
      else (case definition of
              JStr s \<Rightarrow>
                (case mapM (eval_target env context response) (groups s) of
                   Inl e \<Rightarrow> Inl e
                 | Inr results \<Rightarrow> Inr (list_all (\<lambda>entry. entry) results))
            | _ \<Rightarrow> Inl (TypeError ''replace'')))"

section \<open>Plain schemas\<close>

definition no_constraints :: constraints where
  "no_constraints =
     \<lparr>ref = None, type = None, maxItems = None, minItems = None, maxLength = None,
      minLength = None, enum = None, pattern = None, format = None, maximum = None,
      minimum = None, exclusiveMaximum = None, exclusiveMinimum = None\<rparr>"

text \<open>The schema \<^verbatim>\<open>{type: t}\<close> and the schema \<^verbatim>\<open>{$ref: r}\<close>.\<close>

definition typed :: "string \<Rightarrow> schema" where
  "typed t = Schema None None None None None (no_constraints\<lparr>type := Some t\<rparr>)"

definition reference :: "string \<Rightarrow> schema" where
  "reference r = Schema None None None None None (no_constraints\<lparr>ref := Some r\<rparr>)"

section \<open>The canned specifications\<close>

text \<open>\<^verbatim>\<open>StandardSpecs.getSpec(key)\<close>.  The request body of the operation is left
  out: the validator never reads it.\<close>

definition getSpec :: "string \<Rightarrow> pathItem option" where
  "getSpec key =
     (if key = ''oauth2.ClientCredentials'' then
        Some \<lparr>path_parameters = None,
              operations =
                [(''post'',
                  \<lparr>op_parameters = None,
                   responses = Some
                     [(''200'',
                       \<lparr>response_ref = None,
                        content = Some
                          [(''application/json'',
                            \<lparr>media_schema = Some
                               (Schema None None None None
                                  (Some [(''access_token'', typed ''string''),
                                         (''token_type'', typed ''string''),
                                         (''expires_in'',
                                          Schema None None None None None
                                            (no_constraints\<lparr>type := Some ''number'',
                                               minimum := Some (Fin 0)\<rparr>))])
                                  (no_constraints\<lparr>type := Some ''object''\<rparr>))\<rparr>)]\<rparr>)]\<rparr>)]\<rparr>
      else None)"

section \<open>The test set and the sequence executor\<close>

record request =
  req_headers :: "(string \<times> json) list option"
  req_body :: json

record expectation =
  exp_status :: json
  exp_headers :: json
  exp_body :: json

record invocation =
  inv_contextPath :: "string option"
  inv_spec :: "string option"
  inv_path :: "string option"
  inv_method :: "string option"
  inv_request :: "request option"
  inv_response :: "expectation option"

record testCase =
  title :: string
  tc_contextPath :: "string option"
  sequence :: "invocation list option"

record testSet =
  testCases :: "testCase list option"

text \<open>
  Modelled from the spec: the logger, whose source is not at hand.  It takes a message and
  an optional level, filters by a threshold and writes to its sinks; the model keeps the
  calls of \<^verbatim>\<open>writeLog\<close> in their order, next to the state of the world after the
  requests.  \<open>LogRequest\<close> and \<open>LogResponse\<close> stand for the four lines each that the
  verbose mode writes, \<open>LogNG\<close> for the line with the failure marker and the message of
  the error, \<open>LogStack\<close> for the stack written at the debug level.
\<close>

datatype log_entry =
    LogStarted string
  | LogRequest string string "(string \<times> json) list option" json
  | LogResponse response
  | LogPass string string
  | LogNG error
  | LogStack error

record 'w run_state =
  world :: 'w
  logged :: "log_entry list"

definition writeLog :: "log_entry \<Rightarrow> 'w run_state \<Rightarrow> 'w run_state" where
  "writeLog entry st = st\<lparr>logged := logged st @ [entry]\<rparr>"

subsection \<open>Strings and properties\<close>

text \<open>\<^verbatim>\<open>s.toLowerCase()\<close>: the letters of ASCII and of the Latin-1 supplement.\<close>

definition upper_letters :: string where
  "upper_letters = ''ABCDEFGHIJKLMNOPQRSTUVWXYZ'' @
     [CHR 0xC0, CHR 0xC1, CHR 0xC2, CHR 0xC3, CHR 0xC4, CHR 0xC5, CHR 0xC6, CHR 0xC7,
      CHR 0xC8, CHR 0xC9, CHR 0xCA, CHR 0xCB, CHR 0xCC, CHR 0xCD, CHR 0xCE, CHR 0xCF,
      CHR 0xD0, CHR 0xD1, CHR 0xD2, CHR 0xD3, CHR 0xD4, CHR 0xD5, CHR 0xD6,
      CHR 0xD8, CHR 0xD9, CHR 0xDA, CHR 0xDB, CHR 0xDC, CHR 0xDD, CHR 0xDE]"

definition lower_letters :: string where
  "lower_letters = ''abcdefghijklmnopqrstuvwxyz'' @
     [CHR 0xE0, CHR 0xE1, CHR 0xE2, CHR 0xE3, CHR 0xE4, CHR 0xE5, CHR 0xE6, CHR 0xE7,
      CHR 0xE8, CHR 0xE9, CHR 0xEA, CHR 0xEB, CHR 0xEC, CHR 0xED, CHR 0xEE, CHR 0xEF,
      CHR 0xF0, CHR 0xF1, CHR 0xF2, CHR 0xF3, CHR 0xF4, CHR 0xF5, CHR 0xF6,
      CHR 0xF8, CHR 0xF9, CHR 0xFA, CHR 0xFB, CHR 0xFC, CHR 0xFD, CHR 0xFE]"

definition toLowerCase :: "string \<Rightarrow> string" where
  "toLowerCase s =
     map (\<lambda>c. case map_of (zip upper_letters lower_letters) c of None \<Rightarrow> c | Some l \<Rightarrow> l) s"

text \<open>\<^verbatim>\<open>s.replace(pattern, replacement)\<close> for a pattern that is a string: the first
  occurrence.  The replacement is taken literally.\<close>

fun replace_first :: "string \<Rightarrow> string \<Rightarrow> string \<Rightarrow> string" where
  "replace_first [] pat r = (if pat = [] then r else [])"
| "replace_first (c # cs) pat r =
     (if startsWith (c # cs) pat then r @ drop (length pat) (c # cs)
      else c # replace_first cs pat r)"

text \<open>\<^verbatim>\<open>s.replace(/{.+}/, replacement)\<close>: the first opening brace from which the
  pattern matches, up to the last closing brace on its line.\<close>

fun replace_brace_span :: "string \<Rightarrow> string \<Rightarrow> string" where
  "replace_brace_span [] r = []"
| "replace_brace_span (c # cs) r =
     (let run = takeWhile (\<lambda>x. \<not> is_line_terminator x) cs
      in if c = CHR ''{'' \<and> CHR ''}'' \<in> set (drop 1 run)
         then r @ drop (length run - length (takeWhile not_closing (rev run))) cs
         else c # replace_brace_span cs r)"

text \<open>\<^verbatim>\<open>/^{.+:.+}$/.test(credential)\<close>\<close>

definition basic_credential :: "string \<Rightarrow> bool" where
  "basic_credential credential =
     (5 \<le> length credential \<and> hd credential = CHR ''{'' \<and> last credential = CHR ''}''
      \<and> list_all (\<lambda>x. \<not> is_line_terminator x) (butlast (tl credential))
      \<and> CHR '':'' \<in> set (butlast (tl (butlast (tl credential)))))"

text \<open>The properties of an object: \<^verbatim>\<open>obj[key]\<close>, \<^verbatim>\<open>delete obj[key]\<close> and
  \<^verbatim>\<open>obj[key] = value\<close>.  A request body that is not an object has no property
  here.\<close>

definition js_get :: "json \<Rightarrow> string \<Rightarrow> json" where
  "js_get obj key =
     (case obj of
        JObj kvs \<Rightarrow> (case map_of kvs key of None \<Rightarrow> JUndefined | Some v \<Rightarrow> v)
      | _ \<Rightarrow> JUndefined)"

definition js_delete :: "json \<Rightarrow> string \<Rightarrow> json" where
  "js_delete obj key =
     (case obj of JObj kvs \<Rightarrow> JObj (filter (\<lambda>kv. fst kv \<noteq> key) kvs) | _ \<Rightarrow> obj)"

fun set_property :: "(string \<times> json) list \<Rightarrow> string \<Rightarrow> json \<Rightarrow> (string \<times> json) list" where
  "set_property [] key v = [(key, v)]"
| "set_property ((k, x) # kvs) key v =
     (if k = key then (k, v) # kvs else (k, x) # set_property kvs key v)"

definition header :: "(string \<times> json) list \<Rightarrow> string \<Rightarrow> json" where
  "header hs key = (case map_of hs key of None \<Rightarrow> JUndefined | Some v \<Rightarrow> v)"

subsection \<open>\<^verbatim>\<open>JSON.stringify\<close>\<close>

definition quote_char :: "char \<Rightarrow> string" where
  "quote_char c =
     (let n = (of_char c :: nat) in
      if n = 34 then [CHR 0x5C, CHR 0x22]
      else if n = 92 then [CHR 0x5C, CHR 0x5C]
      else if n = 8 then [CHR 0x5C, CHR ''b'']
      else if n = 12 then [CHR 0x5C, CHR ''f'']
      else if n = 10 then [CHR 0x5C, CHR ''n'']
      else if n = 13 then [CHR 0x5C, CHR ''r'']
      else if n = 9 then [CHR 0x5C, CHR ''t'']
      else if n < 32 then [CHR 0x5C, CHR ''u'', CHR ''0'', CHR ''0'', digit_char (n div 16), digit_char (n mod 16)]
      else [c])"

definition quote :: "string \<Rightarrow> string" where
  "quote s = CHR 0x22 # concat (map quote_char s) @ [CHR 0x22]"

fun stringify :: "'w platform \<Rightarrow> json \<Rightarrow> string" where
  "stringify env JUndefined = ''null''"
| "stringify env JNull = ''null''"
| "stringify env (JBool b) = (if b then ''true'' else ''false'')"
| "stringify env (JNum n) = (case n of Fin q \<Rightarrow> number_toString env n | _ \<Rightarrow> ''null'')"
| "stringify env (JStr s) = quote s"
| "stringify env (JArr xs) = ''['' @ join '','' (map (stringify env) xs) @ '']''"
| "stringify env (JObj kvs) =
     ''{'' @ join '',''
               (map (\<lambda>kv. quote (fst kv) @ '':'' @ stringify env (snd kv))
                  (filter (\<lambda>kv. snd kv \<noteq> JUndefined) kvs)) @ ''}''"
| "stringify env (JBuffer bs) =
     ''{'' @ quote ''type'' @ '':'' @ quote ''Buffer'' @ '','' @ quote ''data'' @ '':[''
       @ join '','' (map (\<lambda>c. nat_toString (of_char c)) bs) @ '']}''"

text \<open>\<^verbatim>\<open>stringifyObject(object)\<close>\<close>

definition stringifyObject :: "'w platform \<Rightarrow> json \<Rightarrow> string" where
  "stringifyObject env object =
     (if is_nullish object then []
      else (case object of
              JBuffer bs \<Rightarrow> utf8_decode env bs
            | _ \<Rightarrow> stringify env object))"

subsection \<open>The request\<close>

text \<open>A loop over a list that carries a state and may throw.\<close>

fun foldM :: "('a \<Rightarrow> 's \<Rightarrow> error + 's) \<Rightarrow> 'a list \<Rightarrow> 's \<Rightarrow> error + 's" where
  "foldM f [] st = Inr st"
| "foldM f (x # xs) st = (case f x st of Inl e \<Rightarrow> Inl e | Inr st' \<Rightarrow> foldM f xs st')"

text \<open>Lines 213 to 241: the authorization header.  A value that is not a string has no
  method \<^verbatim>\<open>startsWith\<close>.\<close>

definition authorize ::
  "'w platform \<Rightarrow> json list \<Rightarrow> (string \<times> json) list \<Rightarrow> error + (string \<times> json) list" where
  "authorize env context requestHeaders =
     (if \<not> is_nullish (header requestHeaders ''authorization'')
         \<or> \<not> is_nullish (header requestHeaders ''Authorization'')
      then
        (case (if \<not> is_nullish (header requestHeaders ''authorization'')
               then header requestHeaders ''authorization''
               else header requestHeaders ''Authorization'') of
           JStr authorization \<Rightarrow>
             if startsWith authorization ''Basic '' then
               (let credential = trim (drop (length ''Basic '') authorization) in
                if basic_credential credential then
                  (let credential' = base64_encode env (butlast (tl credential)) in
                   if \<not> is_nullish (header requestHeaders ''authorization'')
                   then Inr (set_property requestHeaders ''authorization''
                               (JStr (replace_brace_span authorization credential')))
                   else Inr (set_property requestHeaders ''Authorization''
                               (JStr (replace_brace_span authorization credential'))))
                else Inr requestHeaders)
             else if startsWith authorization ''Bearer '' then
               (let credential = trim (drop (length ''Bearer '') authorization) in
                case replaceBrackets env credential context JUndefined of
                  Inl e \<Rightarrow> Inl e
                | Inr token \<Rightarrow>
                    Inr (set_property requestHeaders ''authorization'' (JStr (''Bearer '' @ token))))
             else Inr requestHeaders
         | _ \<Rightarrow> Inl (TypeError ''startsWith''))
      else Inr requestHeaders)"

text \<open>The value of a parameter taken out of the request body: a string goes through the
  substitution, the value is validated with the cast enabled and encoded.\<close>

definition parameter_value ::
  "'w platform \<Rightarrow> openapi \<Rightarrow> json list \<Rightarrow> parameter \<Rightarrow> string \<Rightarrow> json \<Rightarrow> error + string" where
  "parameter_value env spec context parameter name v =
     (case (case v of
              JStr str \<Rightarrow> map_sum id JStr (replaceBrackets env str context JUndefined)
            | _ \<Rightarrow> Inr v) of
        Inl e \<Rightarrow> Inl e
      | Inr v' \<Rightarrow>
          (case (case param_schema parameter of
                   None \<Rightarrow> Inr ()
                 | Some schema \<Rightarrow> validateJson env spec v' schema (Some name) True) of
             Inl e \<Rightarrow> Inl e
           | Inr u \<Rightarrow> encodeURIComponent env (js_toString env v')))"

text \<open>The properties of a referenced component that the body holds are removed from it;
  \<open>use\<close> says what to do with each encoded value.\<close>

definition component_parameters ::
  "'w platform \<Rightarrow> openapi \<Rightarrow> string \<Rightarrow> (string \<Rightarrow> string \<Rightarrow> 'a \<Rightarrow> 'a) \<Rightarrow> json \<times> 'a
     \<Rightarrow> error + json \<times> 'a" where
  "component_parameters env spec r use st =
     (case getComponent spec r of
        None \<Rightarrow> Inr st
      | Some component \<Rightarrow>
          (case properties component of
             None \<Rightarrow> Inr st
           | Some props \<Rightarrow>
               if is_nullish (fst st) then Inr st
               else
                 (case validateJson env spec (fst st) component None False of
                    Inl e \<Rightarrow> Inl e
                  | Inr u \<Rightarrow>
                      foldM
                        (\<lambda>key (requestBody, acc).
                           if js_get requestBody key \<noteq> JUndefined then
                             (case encodeURIComponent env (js_toString env (js_get requestBody key)) of
                                Inl e \<Rightarrow> Inl e
                              | Inr encoded \<Rightarrow> Inr (js_delete requestBody key, use key encoded acc))
                           else Inr (requestBody, acc))
                        (map fst props) st)))"

text \<open>Lines 248 to 289: one parameter of the path item, on the request body and the
  request path.\<close>

definition path_parameter ::
  "'w platform \<Rightarrow> openapi \<Rightarrow> json list \<Rightarrow> parameter \<Rightarrow> json \<times> string \<Rightarrow> error + json \<times> string" where
  "path_parameter env spec context parameter st =
     (case param_ref parameter of
        None \<Rightarrow>
          (case param_name parameter of
             None \<Rightarrow> Inr st
           | Some name \<Rightarrow>
               if param_in parameter = Some ''path'' then
                 (if \<not> is_nullish (fst st) \<and> js_get (fst st) name \<noteq> JUndefined then
                    (case parameter_value env spec context parameter name (js_get (fst st) name) of
                       Inl e \<Rightarrow> Inl e
                     | Inr encoded \<Rightarrow>
                         Inr (js_delete (fst st) name,
                              replace_first (snd st) (''{'' @ name @ ''}'') encoded))
                  else if param_required parameter = Some True
                  then Inl (ParameterRequired name)
                  else Inr st)
               else Inr st)
      | Some r \<Rightarrow>
          component_parameters env spec r
            (\<lambda>key encoded requestPath. replace_first requestPath (''{'' @ key @ ''}'') encoded) st)"

text \<open>Lines 294 to 334: one parameter of the operation, on the request body and the
  pieces of the query collected so far.  The pieces of a referenced component are
  returned inside the inner loop and lost.\<close>

definition query_parameter ::
  "'w platform \<Rightarrow> openapi \<Rightarrow> json list \<Rightarrow> parameter \<Rightarrow> json \<times> string list
     \<Rightarrow> error + json \<times> string list" where
  "query_parameter env spec context parameter st =
     (case param_ref parameter of
        None \<Rightarrow>
          (case param_name parameter of
             None \<Rightarrow> Inr st
           | Some name \<Rightarrow>
               if param_in parameter = Some ''query'' then
                 (if \<not> is_nullish (fst st) \<and> js_get (fst st) name \<noteq> JUndefined then
                    (case parameter_value env spec context parameter name (js_get (fst st) name) of
                       Inl e \<Rightarrow> Inl e
                     | Inr encoded \<Rightarrow>
                         Inr (js_delete (fst st) name, snd st @ [name @ ''='' @ encoded]))
                  else if param_required parameter = Some True
                  then Inl (ParameterRequired name)
                  else Inr st)
               else Inr st)
      | Some r \<Rightarrow> component_parameters env spec r (\<lambda>key encoded pieces. pieces) st)"

subsection \<open>The response\<close>

text \<open>Lines 356 to 387: the response against the contract.\<close>

definition validate_response ::
  "'w platform \<Rightarrow> openapi \<Rightarrow> operation \<Rightarrow> response \<Rightarrow> error + unit" where
  "validate_response env spec operation response =
     (case responses operation of
        None \<Rightarrow> Inr ()
      | Some rs \<Rightarrow>
          if is_nullish (status response) then Inr ()
          else
            (case (case map_of rs (js_toString env (status response)) of
                     None \<Rightarrow> map_of rs ''default''
                   | Some r \<Rightarrow> Some r) of
               None \<Rightarrow> Inr ()
             | Some responseSpec \<Rightarrow>
                 (case response_ref responseSpec of
                    None \<Rightarrow>
                      (let responseContentType = header (headers response) ''content-type'' in
                       if is_nullish responseContentType then Inr ()
                       else
                         (case content responseSpec of
                            None \<Rightarrow> Inl (TypeError ''content'')
                          | Some c \<Rightarrow>
                              (case Option.bind (map_of c (js_toString env responseContentType))
                                      media_schema of
                                 None \<Rightarrow>
                                   Inl (NoMediaTypeDefinition (js_toString env responseContentType))
                               | Some schema \<Rightarrow>
                                   (case responseContentType of
                                      JStr ct \<Rightarrow>
                                        if startsWith ct ''application/json'' then
                                          (case (case ref (constraints schema) of
                                                   None \<Rightarrow> Some schema
                                                 | Some r \<Rightarrow> getComponent spec r) of
                                             None \<Rightarrow> Inl (TypeError ''oneOf'')
                                           | Some schema' \<Rightarrow>
                                               validateJson env spec (body response) schema' None False)
                                        else Inl (ContentTypeNotSupported ct)
                                    | _ \<Rightarrow> Inl (TypeError ''startsWith'')))))
                  | Some r \<Rightarrow>
                      (case getComponent spec r of
                         None \<Rightarrow> Inr ()
                       | Some component \<Rightarrow>
                           validateJson env spec (body response) component None False))))"

text \<open>Lines 410 to 417: the expected body.\<close>

definition check_expected_body ::
  "'w platform \<Rightarrow> json \<Rightarrow> json list \<Rightarrow> response \<Rightarrow> error + unit" where
  "check_expected_body env expectedBody context response =
     (case evalBrackets env expectedBody context (body response) of
        Inl e \<Rightarrow> Inl e
      | Inr holds \<Rightarrow>
          if \<not> holds then Inl (BodyDiffers (body response) expectedBody)
          else if \<not> has_brace_span (js_toString env expectedBody)
                  \<and> stringifyObject env (body response) \<noteq> stringifyObject env expectedBody
          then Inl (BodyDiffers (body response) expectedBody)
          else Inr ())"

text \<open>Lines 389 to 418: the expected values.  The expected value and the actual one are
  never the same object.\<close>

definition check_expected ::
  "'w platform \<Rightarrow> expectation \<Rightarrow> json list \<Rightarrow> response \<Rightarrow> error + unit" where
  "check_expected env testingResponse context response =
     (if \<not> is_nullish (exp_status testingResponse)
         \<and> \<not> js_eq env False (exp_status testingResponse) (status response)
      then Inl (StatusDiffers (status response) (exp_status testingResponse))
      else
        (case (if is_nullish (exp_headers testingResponse) then Inr ()
               else (case exp_headers testingResponse of
                       JStr expectedHeaders \<Rightarrow>
                         (case evalBrackets env (JStr expectedHeaders) context
                                 (JObj (headers response)) of
                            Inl e \<Rightarrow> Inl e
                          | Inr holds \<Rightarrow> if \<not> holds then Inl HeadersDiffer else Inr ())
                     | expectedHeaders \<Rightarrow>
                         forEach
                           (\<lambda>kv. if \<not> js_eq env False (snd kv) (header (headers response) (fst kv))
                                  then Inl (HeaderDiffers (header (headers response) (fst kv)) (snd kv))
                                  else Inr ())
                           (entries expectedHeaders))) of
           Inl e \<Rightarrow> Inl e
         | Inr u \<Rightarrow>
             if \<not> is_nullish (exp_body testingResponse)
             then check_expected_body env (exp_body testingResponse) context response
             else Inr ()))"

subsection \<open>One step\<close>

text \<open>Lines 181 to 338: the path item, the method, the headers, the body and the path of
  the request of a step.\<close>

definition prepare ::
  "'w platform \<Rightarrow> openapi \<Rightarrow> string \<Rightarrow> invocation \<Rightarrow> json list
     \<Rightarrow> error + (operation \<times> string \<times> string \<times> (string \<times> json) list option \<times> json)" where
  "prepare env spec contextPath invoke context =
     (case (inv_path invoke, inv_method invoke) of
        (Some ipath, Some imethod) \<Rightarrow>
          (let requestPath =
                 (if \<not> startsWith ipath ''http''
                  then (case inv_contextPath invoke of
                          Some c \<Rightarrow> c @ ipath
                        | None \<Rightarrow> contextPath @ ipath)
                  else ipath)
           in
           case (case map_of (paths spec) ipath of
                   Some p \<Rightarrow> Some p
                 | None \<Rightarrow> Option.bind (inv_spec invoke) getSpec) of
             None \<Rightarrow> Inl (SpecNotFound ipath)
           | Some path \<Rightarrow>
               (let method = toLowerCase imethod in
                if method \<notin> set [''get'', ''post'', ''patch'', ''put'', ''delete'', ''option'', ''head'']
                then Inl (InvalidMethod method)
                else
                  (case (case Option.bind (inv_request invoke) req_headers of
                           None \<Rightarrow> Inr None
                         | Some hs \<Rightarrow> map_sum id Some (authorize env context hs)) of
                     Inl e \<Rightarrow> Inl e
                   | Inr requestHeaders \<Rightarrow>
                       (case foldM (path_parameter env spec context)
                               (case path_parameters path of None \<Rightarrow> [] | Some ps \<Rightarrow> ps)
                               (case inv_request invoke of
                                  None \<Rightarrow> JUndefined
                                | Some r \<Rightarrow> req_body r,
                                requestPath) of
                          Inl e \<Rightarrow> Inl e
                        | Inr (requestBody, requestPath') \<Rightarrow>
                            (case map_of (operations path) method of
                               None \<Rightarrow> Inl (TypeError ''parameters'')
                             | Some operation \<Rightarrow>
                                 (case foldM (query_parameter env spec context)
                                         (case op_parameters operation of None \<Rightarrow> [] | Some ps \<Rightarrow> ps)
                                         (requestBody, []) of
                                    Inl e \<Rightarrow> Inl e
                                  | Inr (requestBody', pieces) \<Rightarrow>
                                      Inr (operation, method,
                                           (if length (join ''&'' pieces) > 0
                                            then requestPath' @ ''?'' @ join ''&'' pieces
                                            else requestPath'),
                                           requestHeaders, requestBody')))))))
      | _ \<Rightarrow> Inl InvalidInvoke)"

text \<open>Lines 181 to 419: a step up to the line that reports its success.  The result is
  the actual response.\<close>

definition step ::
  "'w platform \<Rightarrow> openapi \<Rightarrow> bool \<Rightarrow> string \<Rightarrow> invocation \<Rightarrow> json list \<Rightarrow> 'w run_state
     \<Rightarrow> (error + response) \<times> 'w run_state" where
  "step env spec verbose contextPath invoke context st =
     (case prepare env spec contextPath invoke context of
        Inl e \<Rightarrow> (Inl e, st)
      | Inr (operation, method, requestPath, requestHeaders, requestBody) \<Rightarrow>
          (let imethod = (case inv_method invoke of None \<Rightarrow> [] | Some m \<Rightarrow> m);
               st1 = (if verbose
                      then writeLog (LogRequest imethod requestPath requestHeaders requestBody) st
                      else st);
               (answer, w) = http_request env (world st1) method requestPath requestHeaders requestBody;
               st2 = st1\<lparr>world := w\<rparr>
           in
           case answer of
             Inl e \<Rightarrow> (Inl e, st2)
           | Inr response \<Rightarrow>
               (let st3 = (if verbose then writeLog (LogResponse response) st2 else st2) in
                case validate_response env spec operation response of
                  Inl e \<Rightarrow> (Inl e, st3)
                | Inr u \<Rightarrow>
                    (case (case inv_response invoke of
                             None \<Rightarrow> Inr ()
                           | Some testingResponse \<Rightarrow>
                               check_expected env testingResponse context response) of
                       Inl e \<Rightarrow> (Inl e, st3)
                     | Inr u \<Rightarrow> (Inr response, writeLog (LogPass imethod requestPath) st3)))))"

subsection \<open>The sequence and the test cases\<close>

text \<open>
  \<^verbatim>\<open>invoke(contextPath, sequence, index, context)\<close>.  The result holds the context
  store as the call leaves it.  An index behind the sequence reads a property of
  \<^verbatim>\<open>undefined\<close>.
\<close>

function invoke ::
  "'w platform \<Rightarrow> openapi \<Rightarrow> bool \<Rightarrow> string \<Rightarrow> invocation list \<Rightarrow> nat \<Rightarrow> json list \<Rightarrow> 'w run_state
     \<Rightarrow> (error + unit) \<times> json list \<times> 'w run_state" where
  "invoke env spec verbose contextPath steps index context st =
     (if index < length steps then
        (case step env spec verbose contextPath (steps ! index) context st of
           (Inl e, st') \<Rightarrow> (Inl e, context, st')
         | (Inr response, st') \<Rightarrow>
             if index + 1 < length steps
             then invoke env spec verbose contextPath steps (index + 1)
                    (context @ [body response]) st'
             else (Inr (), context @ [body response], st'))
      else (Inl (TypeError ''path''), context, st))"
  by pat_completeness auto
termination
  by (relation "measure (\<lambda>(env, spec, verbose, contextPath, steps, index, context, st).
                           length steps - index)") auto

declare invoke.simps [simp del]

text \<open>
  \<^verbatim>\<open>executeTestCases(testCases, index)\<close>.  The handler of the \<^verbatim>\<open>catch\<close> clause
  reads \<^verbatim>\<open>error.message\<close>, which raises a \<^verbatim>\<open>TypeError\<close> outside the
  \<^verbatim>\<open>try\<close> block when the value caught is \<^verbatim>\<open>undefined\<close>.
\<close>

function executeTestCases ::
  "'w platform \<Rightarrow> openapi \<Rightarrow> bool \<Rightarrow> testCase list \<Rightarrow> nat \<Rightarrow> 'w run_state
     \<Rightarrow> (error + unit) \<times> 'w run_state" where
  "executeTestCases env spec verbose cases index st =
     (if index < length cases then
        (case sequence (cases ! index) of
           None \<Rightarrow> (Inr (), st)
         | Some steps \<Rightarrow>
             if length steps = 0 then (Inr (), st)
             else
               (case invoke env spec verbose
                       (case tc_contextPath (cases ! index) of None \<Rightarrow> [] | Some c \<Rightarrow> c)
                       steps 0 []
                       (writeLog (LogStarted (title (cases ! index))) st) of
                  (Inl ThrownUndefined, context, st') \<Rightarrow> (Inl (TypeError ''message''), st')
                | (Inl e, context, st') \<Rightarrow>
                    if index + 1 < length cases
                    then executeTestCases env spec verbose cases (index + 1)
                           (writeLog (LogStack e) (writeLog (LogNG e) st'))
                    else (Inr (), writeLog (LogStack e) (writeLog (LogNG e) st'))
                | (Inr u, context, st') \<Rightarrow>
                    if index + 1 < length cases
                    then executeTestCases env spec verbose cases (index + 1) st'
                    else (Inr (), st')))
      else (Inl (TypeError ''sequence''), st))"
  by pat_completeness auto
termination
  by (relation "measure (\<lambda>(env, spec, verbose, cases, index, st).
                           length cases - index)") auto

declare executeTestCases.simps [simp del]

text \<open>\<^verbatim>\<open>validate()\<close>\<close>

definition validate ::
  "'w platform \<Rightarrow> openapi option \<Rightarrow> bool \<Rightarrow> testSet option \<Rightarrow> 'w run_state
     \<Rightarrow> (error + unit) \<times> 'w run_state" where
  "validate env spec verbose tests st =
     (case spec of
        None \<Rightarrow> (Inl InvalidSpecification, st)
      | Some sp \<Rightarrow>
          (case Option.bind tests testCases of
             None \<Rightarrow> (Inl InvalidTestSet, st)
           | Some cases \<Rightarrow>
               if length cases = 0 then (Inl InvalidTestSet, st)
               else executeTestCases env sp verbose cases 0 st))"

section \<open>Sample data\<close>

text \<open>A platform whose collaborators do nothing of interest: every pattern matches, a
  number prints as nothing, a JSONPath query finds nothing and a request is answered with
  status 200 and an empty body.\<close>

definition sample_platform :: "'w platform" where
  "sample_platform =
     \<lparr>regexp_test = (\<lambda>p s. Inr True),
      format_test = (\<lambda>f s. True),
      finite_toString = (\<lambda>q. []),
      utf8_decode = (\<lambda>bs. bs),
      date_parse_other = (\<lambda>s. NaN),
      encodeURIComponent = (\<lambda>s. Inr s),
      base64_encode = (\<lambda>s. s),
      jsonpath_nodes = (\<lambda>v p. Inr []),
      http_request = (\<lambda>w m p h b. (Inr \<lparr>status = JNum (Fin 200), headers = [], body = JNull\<rparr>, w))\<rparr>"

text \<open>A document with no path and the component \<^verbatim>\<open>Name\<close>, a string.\<close>

definition sample_spec :: openapi where
  "sample_spec =
     \<lparr>paths = [], components = Some \<lparr>schemas = Some [(''Name'', typed ''string'')]\<rparr>\<rparr>"


text \<open>A JSONPath that knows the name of a member of an object and nothing else.\<close>

definition member_platform :: "'w platform" where
  "member_platform =
     sample_platform\<lparr>jsonpath_nodes :=
       (\<lambda>obj path. case obj of
                      JObj kvs \<Rightarrow> (case map_of kvs path of
                                     None \<Rightarrow> Inr []
                                   | Some v \<Rightarrow> Inr [([''$'', path], v)])
                    | _ \<Rightarrow> Inr [])\<rparr>"

text \<open>A transport that answers every request with status 200 and the JSON body
  \<^verbatim>\<open>5\<close>, in a world that is the list of the requests sent so far.\<close>

definition recording_platform :: "(string \<times> string) list platform" where
  "recording_platform =
     sample_platform\<lparr>http_request :=
       (\<lambda>w m p h b. (Inr \<lparr>status = JNum (Fin 200),
                           headers = [(''content-type'', JStr ''application/json'')],
                           body = JNum (Fin 5)\<rparr>, w @ [(m, p)]))\<rparr>"

text \<open>A contract with two paths: \<^verbatim>\<open>GET /ping\<close> declares no response, and
  \<^verbatim>\<open>GET /name\<close> declares the JSON response
  \<^verbatim>\<open>{oneOf: [{type: string}], type: string}\<close> for status 200.\<close>

definition sample_contract :: openapi where
  "sample_contract =
     \<lparr>paths =
        [(''/ping'', \<lparr>path_parameters = None,
                      operations = [(''get'', \<lparr>op_parameters = None, responses = None\<rparr>)]\<rparr>),
         (''/name'',
          \<lparr>path_parameters = None,
           operations =
             [(''get'',
               \<lparr>op_parameters = None,
                responses = Some
                  [(''200'',
                    \<lparr>response_ref = None,
                     content = Some
                       [(''application/json'',
                         \<lparr>media_schema = Some
                            (Schema (Some [typed ''string'']) None None None None
                               (no_constraints\<lparr>type := Some ''string''\<rparr>))\<rparr>)]\<rparr>)]\<rparr>)]\<rparr>)],
      components = None\<rparr>"

text \<open>The step \<^verbatim>\<open>{path: p, method: GET}\<close>, a test case with a title and a
  sequence, and the state before the run.\<close>

definition get_step :: "string \<Rightarrow> invocation" where
  "get_step p =
     \<lparr>inv_contextPath = None, inv_spec = None, inv_path = Some p, inv_method = Some ''GET'',
      inv_request = None, inv_response = None\<rparr>"

definition test_case :: "string \<Rightarrow> invocation list \<Rightarrow> testCase" where
  "test_case t steps = \<lparr>title = t, tc_contextPath = None, sequence = Some steps\<rparr>"

definition start :: "(string \<times> string) list run_state" where
  "start = \<lparr>world = [], logged = []\<rparr>"

section \<open>Properties of the schema validator\<close>


text \<open>The same node without its composition keywords.\<close>

definition without_composition :: "schema \<Rightarrow> schema" where
  "without_composition schema =
     Schema None None None (items schema) (properties schema) (constraints schema)"

lemmas sample_defs =
  typed_def reference_def no_constraints_def sample_spec_def sample_platform_def
  member_platform_def recording_platform_def sample_contract_def get_step_def test_case_def
  start_def

lemmas validate_defs =
  validateJson.simps validateJson_type.simps resolve_node_def resolve_value_schema_def
  getComponent_def validate_string_def validate_string_value_def validate_number_def
  validate_bounds_def validate_integer_def validate_boolean_def validate_null_def
  validate_lengths_def is_nullish_def js_gt_def js_ge_def

lemma succeeds_simps [simp]: "succeeds (Inl e) = False" "succeeds (Inr v) = True"
  by (simp_all add: succeeds_def)

lemma succeeds_forEach: "succeeds (forEach f xs) = list_all (\<lambda>x. succeeds (f x)) xs"
  by (induction xs) (auto split: sum.splits)

lemma succeeds_then:
  "succeeds (case x of Inl e \<Rightarrow> Inl e | Inr u \<Rightarrow> y) = (succeeds x \<and> succeeds y)"
  by (cases x) simp_all



subsection \<open>Success does not depend on what an error carries\<close>

lemma validate_lengths_cong:
  "constraints s = constraints s' \<Longrightarrow>
   succeeds (validate_lengths s d n k) = succeeds (validate_lengths s' d n k)"
  by (simp add: validate_lengths_def Let_def)

lemma validate_bounds_cong:
  "constraints s = constraints s' \<Longrightarrow>
   succeeds (validate_bounds s d n k) = succeeds (validate_bounds s' d n k)"
  by (simp add: validate_bounds_def Let_def)

lemma validate_string_cong:
  "constraints s = constraints s' \<Longrightarrow>
   succeeds (validate_string env s d k c) = succeeds (validate_string env s' d k c)"
  by (auto simp add: validate_string_def validate_string_value_def Let_def
      split: sum.splits json.splits)

lemma validate_number_cong:
  "constraints s = constraints s' \<Longrightarrow>
   succeeds (validate_number env s d k c) = succeeds (validate_number env s' d k c)"
  by (auto simp add: validate_number_def Let_def validate_bounds_cong [of s s']
      split: json.splits)

lemma validate_integer_cong:
  "constraints s = constraints s' \<Longrightarrow>
   succeeds (validate_integer env s d k) = succeeds (validate_integer env s' d k)"
  by (auto simp add: validate_integer_def validate_bounds_cong [of s s'] split: json.splits)

lemma validate_boolean_cong:
  "succeeds (validate_boolean s d k) = succeeds (validate_boolean s' d k)"
  by (auto simp add: validate_boolean_def split: json.splits)

lemma validate_null_cong:
  "succeeds (validate_null s d k) = succeeds (validate_null s' d k)"
  by (auto simp add: validate_null_def)

lemma validateJson_type_cong:
  assumes c: "constraints s = constraints s'" and i: "items s = items s'"
    and p: "properties s = properties s'"
  shows "succeeds (validateJson_type env spec data s key b) =
         succeeds (validateJson_type env spec data s' key b)"
proof (cases "type (constraints s')")
  case None
  with c show ?thesis by (simp add: validateJson_type.simps)
next
  case (Some t)
  note unfold = validateJson_type.simps [of env spec data s key b]
    validateJson_type.simps [of env spec data s' key b]
  consider "t = ''array''" | "t = ''object''" | "t = ''string''" | "t = ''number''"
    | "t = ''integer''" | "t = ''boolean''" | "t = ''null''"
    | "t \<notin> {''array'', ''object'', ''string'', ''number'', ''integer'', ''boolean'', ''null''}"
    by auto
  then show ?thesis
  proof cases
    case 1
    with Some c i show ?thesis
      by (cases data)
        (simp_all add: validateJson_type.simps succeeds_then validate_lengths_cong [OF c])
  next
    case 2
    have "succeeds (case properties s' of None \<Rightarrow> Inr ()
            | Some props \<Rightarrow> (case map_of props k of
                None \<Rightarrow> Inl (ValidationError s v ''Schema not found.'' (Some k))
              | Some valueSchema \<Rightarrow>
                  validateJson env spec v (resolve_value_schema spec valueSchema) (Some k) False))
        = succeeds (case properties s' of None \<Rightarrow> Inr ()
            | Some props \<Rightarrow> (case map_of props k of
                None \<Rightarrow> Inl (ValidationError s' v ''Schema not found.'' (Some k))
              | Some valueSchema \<Rightarrow>
                  validateJson env spec v (resolve_value_schema spec valueSchema) (Some k) False))"
      for k v
      by (simp split: option.splits)
    with 2 Some c p show ?thesis
      by (simp add: unfold succeeds_forEach case_prod_unfold)
  next
    case 3
    with Some c show ?thesis by (simp add: unfold validate_string_cong [OF c])
  next
    case 4
    with Some c show ?thesis by (simp add: unfold validate_number_cong [OF c])
  next
    case 5
    with Some c show ?thesis by (simp add: unfold validate_integer_cong [OF c])
  next
    case 6
    with Some c show ?thesis by (simp add: unfold validate_boolean_cong [of s _ _ s'])
  next
    case 7
    with Some c show ?thesis by (simp add: unfold validate_null_cong [of s _ _ s'])
  next
    case 8
    with Some c show ?thesis by (simp add: unfold)
  qed
qed

lemma resolve_without_composition:
  "resolve_node spec (without_composition schema) =
     (case resolve_node spec schema of
        Inl e \<Rightarrow> Inl (InvalidSchemaDefinition (without_composition schema))
      | Inr s \<Rightarrow>
          if ref (constraints schema) = None then Inr (without_composition schema) else Inr s)"
  by (simp add: resolve_node_def without_composition_def split: option.splits)

lemma succeeds_without_composition:
  "succeeds (validateJson env spec data (without_composition schema) key b) =
   succeeds (case resolve_node spec schema of Inl e \<Rightarrow> Inl e
             | Inr resolved \<Rightarrow> validateJson_type env spec data resolved key b)"
proof -
  have "succeeds (validateJson_type env spec data (without_composition schema) key b) =
        succeeds (validateJson_type env spec data schema key b)"
    by (rule validateJson_type_cong) (simp_all add: without_composition_def)
  then show ?thesis
    by (simp add: validateJson.simps [of env spec data "without_composition schema" key b]
        resolve_without_composition split: sum.splits)
      (simp add: without_composition_def resolve_node_def split: option.splits)
qed

subsection \<open>Composition\<close>

text \<open>
  C1, as the code has it.  The composition block has no \<^verbatim>\<open>return\<close>: after a
  composition that holds, the code goes on with the reference and the type of the same
  node.  For a node whose first composition keyword holds a branch, the validation
  succeeds exactly when the composition holds (one branch validates the value for
  \<^verbatim>\<open>oneOf\<close> and \<^verbatim>\<open>anyOf\<close>, every branch for \<^verbatim>\<open>allOf\<close>) and the node
  itself, read without its composition keywords, validates the value as well.  When the
  composition fails, the value thrown is \<^verbatim>\<open>undefined\<close> and no error of a branch.  A
  node with a composition keyword and neither a type nor a reference validates no value:
  the string \<^verbatim>\<open>"a"\<close> validates against the only branch of
  \<^verbatim>\<open>{oneOf: [{type: string}]}\<close>, of \<^verbatim>\<open>{anyOf: [{type: string}]}\<close> and of
  \<^verbatim>\<open>{allOf: [{type: string}]}\<close>, and the three nodes reject it as invalid schemas.
\<close>

theorem composition_layered_on_node:
  "((oneOf schema = Some bs \<or> oneOf schema = None \<and> anyOf schema = Some bs) \<and> bs \<noteq> []
      \<longrightarrow> succeeds (validateJson env spec data schema key enableCast) =
          (list_ex (\<lambda>b. succeeds (validateJson env spec data b key False)) bs
           \<and> succeeds (validateJson env spec data (without_composition schema) key enableCast)))
   \<and> (oneOf schema = None \<and> anyOf schema = None \<and> allOf schema = Some bs \<and> bs \<noteq> []
      \<longrightarrow> succeeds (validateJson env spec data schema key enableCast) =
          (list_all (\<lambda>b. succeeds (validateJson env spec data b key False)) bs
           \<and> succeeds (validateJson env spec data (without_composition schema) key enableCast)))
   \<and> ((oneOf schema = Some bs \<or> oneOf schema = None \<and> anyOf schema = Some bs) \<and> bs \<noteq> []
        \<and> \<not> list_ex (\<lambda>b. succeeds (validateJson env spec data b key False)) bs
      \<longrightarrow> validateJson env spec data schema key enableCast = Inl ThrownUndefined)
   \<and> (oneOf schema = None \<and> anyOf schema = None \<and> allOf schema = Some bs \<and> bs \<noteq> []
        \<and> \<not> list_all (\<lambda>b. succeeds (validateJson env spec data b key False)) bs
      \<longrightarrow> validateJson env spec data schema key enableCast = Inl ThrownUndefined)
   \<and> ((oneOf schema \<noteq> None \<or> anyOf schema \<noteq> None \<or> allOf schema \<noteq> None)
        \<and> type (constraints schema) = None \<and> ref (constraints schema) = None
      \<longrightarrow> \<not> succeeds (validateJson env spec data schema key enableCast))
   \<and> succeeds (validateJson sample_platform sample_spec (JStr ''a'') (typed ''string'') None False)
   \<and> validateJson sample_platform sample_spec (JStr ''a'')
        (Schema (Some [typed ''string'']) None None None None no_constraints) None False =
      Inl (InvalidSchemaDefinition
             (Schema (Some [typed ''string'']) None None None None no_constraints))
   \<and> validateJson sample_platform sample_spec (JStr ''a'')
        (Schema None (Some [typed ''string'']) None None None no_constraints) None False =
      Inl (InvalidSchemaDefinition
             (Schema None (Some [typed ''string'']) None None None no_constraints))
   \<and> validateJson sample_platform sample_spec (JStr ''a'')
        (Schema None None (Some [typed ''string'']) None None no_constraints) None False =
      Inl (InvalidSchemaDefinition
             (Schema None None (Some [typed ''string'']) None None no_constraints))"
proof -
  have tail: "succeeds (case c of Inl e \<Rightarrow> Inl e
                | Inr u \<Rightarrow> (case resolve_node spec schema of Inl e \<Rightarrow> Inl e
                    | Inr resolved \<Rightarrow> validateJson_type env spec data resolved key enableCast)) =
              (succeeds c \<and>
               succeeds (validateJson env spec data (without_composition schema) key enableCast))"
    for c :: "error + unit"
    by (cases c) (simp_all add: succeeds_without_composition)
  have layered:
    "((oneOf schema = Some bs \<or> oneOf schema = None \<and> anyOf schema = Some bs) \<and> bs \<noteq> []
      \<longrightarrow> succeeds (validateJson env spec data schema key enableCast) =
          (list_ex (\<lambda>b. succeeds (validateJson env spec data b key False)) bs
           \<and> succeeds (validateJson env spec data (without_composition schema) key enableCast)))
     \<and> (oneOf schema = None \<and> anyOf schema = None \<and> allOf schema = Some bs \<and> bs \<noteq> []
      \<longrightarrow> succeeds (validateJson env spec data schema key enableCast) =
          (list_all (\<lambda>b. succeeds (validateJson env spec data b key False)) bs
           \<and> succeeds (validateJson env spec data (without_composition schema) key enableCast)))"
    by (auto simp add: validateJson.simps [of env spec data schema key enableCast] tail
          split: if_splits)
  have thrown:
    "((oneOf schema = Some bs \<or> oneOf schema = None \<and> anyOf schema = Some bs) \<and> bs \<noteq> []
        \<and> \<not> list_ex (\<lambda>b. succeeds (validateJson env spec data b key False)) bs
      \<longrightarrow> validateJson env spec data schema key enableCast = Inl ThrownUndefined)
     \<and> (oneOf schema = None \<and> anyOf schema = None \<and> allOf schema = Some bs \<and> bs \<noteq> []
        \<and> \<not> list_all (\<lambda>b. succeeds (validateJson env spec data b key False)) bs
      \<longrightarrow> validateJson env spec data schema key enableCast = Inl ThrownUndefined)"
    by (auto simp add: validateJson.simps [of env spec data schema key enableCast])
  have untyped:
    "type (constraints schema) = None \<and> ref (constraints schema) = None
      \<longrightarrow> \<not> succeeds (validateJson env spec data schema key enableCast)"
    by (auto simp add: validateJson.simps [of env spec data schema key enableCast]
          validateJson_type.simps [of env spec data schema key enableCast] resolve_node_def
          split: option.splits sum.splits if_splits)
  have sample:
    "succeeds (validateJson sample_platform sample_spec (JStr ''a'') (typed ''string'') None False)
     \<and> validateJson sample_platform sample_spec (JStr ''a'')
          (Schema (Some [typed ''string'']) None None None None no_constraints) None False =
        Inl (InvalidSchemaDefinition
               (Schema (Some [typed ''string'']) None None None None no_constraints))
     \<and> validateJson sample_platform sample_spec (JStr ''a'')
          (Schema None (Some [typed ''string'']) None None None no_constraints) None False =
        Inl (InvalidSchemaDefinition
               (Schema None (Some [typed ''string'']) None None None no_constraints))
     \<and> validateJson sample_platform sample_spec (JStr ''a'')
          (Schema None None (Some [typed ''string'']) None None no_constraints) None False =
        Inl (InvalidSchemaDefinition
               (Schema None None (Some [typed ''string'']) None None no_constraints))"
    by (simp add: validate_defs sample_defs)
  from layered thrown untyped sample show ?thesis
    by blast
qed

text \<open>A string and a number against \<^verbatim>\<open>{oneOf: [{type: string}], type: string}\<close>, a
  string against \<^verbatim>\<open>{allOf: [{type: string}], type: string}\<close> and against
  \<^verbatim>\<open>{oneOf: [{type: string}]}\<close>, and a number against
  \<^verbatim>\<open>{allOf: [{type: string}], type: string}\<close>.\<close>

theorem composition_layered_on_node_witness:
  "succeeds (validateJson sample_platform sample_spec (JStr ''a'')
      (Schema (Some [typed ''string'']) None None None None
         (no_constraints\<lparr>type := Some ''string''\<rparr>)) None False)
   \<and> validateJson sample_platform sample_spec (JNum (Fin 1))
      (Schema (Some [typed ''string'']) None None None None
         (no_constraints\<lparr>type := Some ''string''\<rparr>)) None False = Inl ThrownUndefined
   \<and> succeeds (validateJson sample_platform sample_spec (JStr ''a'')
      (Schema None None (Some [typed ''string'']) None None
         (no_constraints\<lparr>type := Some ''string''\<rparr>)) None False)
   \<and> validateJson sample_platform sample_spec (JNum (Fin 1))
      (Schema None None (Some [typed ''string'']) None None
         (no_constraints\<lparr>type := Some ''string''\<rparr>)) None False = Inl ThrownUndefined
   \<and> \<not> succeeds (validateJson sample_platform sample_spec (JStr ''a'')
      (Schema (Some [typed ''string'']) None None None None no_constraints) None False)"
  using
    composition_layered_on_node [of
      "Schema (Some [typed ''string'']) None None None None (no_constraints\<lparr>type := Some ''string''\<rparr>)"
      "[typed ''string'']" sample_platform sample_spec "JStr ''a''" None False]
    composition_layered_on_node [of
      "Schema (Some [typed ''string'']) None None None None (no_constraints\<lparr>type := Some ''string''\<rparr>)"
      "[typed ''string'']" sample_platform sample_spec "JNum (Fin 1)" None False]
    composition_layered_on_node [of
      "Schema None None (Some [typed ''string'']) None None (no_constraints\<lparr>type := Some ''string''\<rparr>)"
      "[typed ''string'']" sample_platform sample_spec "JStr ''a''" None False]
    composition_layered_on_node [of
      "Schema None None (Some [typed ''string'']) None None (no_constraints\<lparr>type := Some ''string''\<rparr>)"
      "[typed ''string'']" sample_platform sample_spec "JNum (Fin 1)" None False]
    composition_layered_on_node [of
      "Schema (Some [typed ''string'']) None None None None no_constraints"
      "[typed ''string'']" sample_platform sample_spec "JStr ''a''" None False]
  by (simp add: without_composition_def validate_defs sample_defs)

subsection \<open>Objects\<close>




subsection \<open>Invalid schemas\<close>




subsection \<open>Bounds of a number\<close>

text \<open>
  C6 on the code.  For a finite number and finite bounds, \<^verbatim>\<open>type: number\<close> accepts
  the number exactly when it is at most \<^verbatim>\<open>maximum\<close>, at least
  \<^verbatim>\<open>minimum\<close>, below \<^verbatim>\<open>exclusiveMaximum\<close> and at least
  \<^verbatim>\<open>exclusiveMinimum\<close>: the code compares with \<^verbatim>\<open><\<close> where the exclusive
  lower bound needs \<^verbatim>\<open><=\<close>.  At the bound itself, a number equal to
  \<^verbatim>\<open>minimum\<close> and a number equal to \<^verbatim>\<open>maximum\<close> pass, a number equal to
  \<^verbatim>\<open>exclusiveMaximum\<close> fails, and a number equal to \<^verbatim>\<open>exclusiveMinimum\<close>
  passes.
\<close>

theorem exclusiveMinimum_admits_the_bound:
  "(validateJson env spec (JNum (Fin v))
      (Schema None None None None None
         (no_constraints\<lparr>type := Some ''number'', maximum := map_option Fin hi,
            minimum := map_option Fin lo, exclusiveMaximum := map_option Fin xhi,
            exclusiveMinimum := map_option Fin xlo\<rparr>)) key False = Inr ()) =
     ((case hi of None \<Rightarrow> True | Some m \<Rightarrow> v \<le> m)
      \<and> (case lo of None \<Rightarrow> True | Some m \<Rightarrow> m \<le> v)
      \<and> (case xhi of None \<Rightarrow> True | Some m \<Rightarrow> v < m)
      \<and> (case xlo of None \<Rightarrow> True | Some m \<Rightarrow> m \<le> v))
   \<and> validateJson env spec (JNum (Fin v))
     (Schema None None None None None
        (no_constraints\<lparr>type := Some ''number'', minimum := Some (Fin v)\<rparr>)) key False = Inr ()
   \<and> validateJson env spec (JNum (Fin v))
     (Schema None None None None None
        (no_constraints\<lparr>type := Some ''number'', maximum := Some (Fin v)\<rparr>)) key False = Inr ()
   \<and> validateJson env spec (JNum (Fin v))
     (Schema None None None None None
        (no_constraints\<lparr>type := Some ''number'', exclusiveMaximum := Some (Fin v)\<rparr>)) key False =
     Inl (ValidationError
            (Schema None None None None None
               (no_constraints\<lparr>type := Some ''number'', exclusiveMaximum := Some (Fin v)\<rparr>))
            (JNum (Fin v)) ''The value is above the maximum value.'' key)
   \<and> validateJson env spec (JNum (Fin v))
     (Schema None None None None None
        (no_constraints\<lparr>type := Some ''number'', exclusiveMinimum := Some (Fin v)\<rparr>)) key False =
     Inr ()"
proof (intro conjI)
  show "(validateJson env spec (JNum (Fin v))
      (Schema None None None None None
         (no_constraints\<lparr>type := Some ''number'', maximum := map_option Fin hi,
            minimum := map_option Fin lo, exclusiveMaximum := map_option Fin xhi,
            exclusiveMinimum := map_option Fin xlo\<rparr>)) key False = Inr ()) =
     ((case hi of None \<Rightarrow> True | Some m \<Rightarrow> v \<le> m)
      \<and> (case lo of None \<Rightarrow> True | Some m \<Rightarrow> m \<le> v)
      \<and> (case xhi of None \<Rightarrow> True | Some m \<Rightarrow> v < m)
      \<and> (case xlo of None \<Rightarrow> True | Some m \<Rightarrow> m \<le> v))"
    by (cases hi; cases lo; cases xhi; cases xlo)
      (auto simp add: validate_defs no_constraints_def Let_def split: if_splits)
qed (simp_all add: validate_defs no_constraints_def)

section \<open>Properties of the expression resolver\<close>

lemmas number_defs =
  string_toNumber_def trim_def is_space_def signed_decimal_def unsigned_decimal_def
  is_digit_def exponent_part_def digits_value_def digit_value_def pow10_def
  round_double_def binary_exponent_def bit_length.simps pow2_def round_half_even_def Let_def

lemmas pattern_defs =
  date_time_regex_def date_prefix_def clock_prefix_def hh_mm_prefix_def zone_prefix_def
  take_class.simps take_one_def digits_and_dots_def is_digit_def

lemmas date_defs =
  date_getTime_def field_def digits_value_def digit_value_def is_digit_def days_in_month_def
  days_from_epoch_def is_leap_year_def Let_def

lemmas eq_defs =
  js_eq_def is_object_def js_toPrimitive_def primitive_eq_def is_nullish_def

subsection \<open>The comparable projection\<close>

lemma number_10: "string_toNumber ''10'' = Fin 10"
  by (simp add: number_defs)

lemma number_10_0: "string_toNumber ''10.0'' = Fin 10"
  by (simp add: number_defs)

lemma number_null: "string_toNumber ''null'' = NaN"
  by (simp add: number_defs)

lemma first_of_january: "date_time_regex ''2024-01-01T00:00:00Z''"
  by (simp add: pattern_defs)

lemma second_of_january: "date_time_regex ''2024-01-02T00:00:00Z''"
  by (simp add: pattern_defs)

lemma time_first_of_january: "date_getTime env ''2024-01-01T00:00:00Z'' = Fin 1704067200000"
  by (simp add: date_defs)

lemma time_second_of_january: "date_getTime env ''2024-01-02T00:00:00Z'' = Fin 1704153600000"
  by (simp add: date_defs)

lemma cast_null: "castAsComparable env (JStr ''null'') = JNull"
  by (simp add: castAsComparable_def pattern_defs eq_defs)

lemma eq_null: "js_eq env same JNull y = is_nullish y"
  by (auto simp: eq_defs split: json.splits)

lemma cast_string_nullish: "is_nullish (castAsComparable env (JStr t)) = (t = ''null'')"
proof (cases "t = ''null''")
  case True
  then show ?thesis by (simp add: cast_null is_nullish_def)
next
  case False
  then show ?thesis by (simp add: castAsComparable_def eq_defs)
qed

lemma cast_number_nullish: "\<not> is_nullish (castAsComparable env (JNum n))"
  by (simp add: castAsComparable_def eq_defs number_null)

lemma cast_boolean_nullish: "\<not> is_nullish (castAsComparable env (JBool b))"
  by (simp add: castAsComparable_def eq_defs number_null)

text \<open>
  C7, as the code has it.  Under the projection the string \<^verbatim>\<open>"10"\<close> equals
  \<^verbatim>\<open>"10.0"\<close>, the first of January 2024 is less than the second, and the string
  \<^verbatim>\<open>"null"\<close> becomes \<^verbatim>\<open>null\<close>: it equals \<^verbatim>\<open>null\<close>, and it equals an
  operand exactly when the projection of the operand is \<^verbatim>\<open>null\<close> or
  \<^verbatim>\<open>undefined\<close>.  Among the strings that is the string \<^verbatim>\<open>"null"\<close> alone, and
  no number and no boolean has such a projection.
\<close>

theorem comparable_projection:
  "compare_operands env ''='' same (JStr ''10'') (JStr ''10.0'')
   \<and> compare_operands env ''<'' same (JStr ''2024-01-01T00:00:00Z'') (JStr ''2024-01-02T00:00:00Z'')
   \<and> castAsComparable env (JStr ''null'') = JNull
   \<and> compare_operands env ''='' same (JStr ''null'') JNull
   \<and> compare_operands env ''='' same (JStr ''null'') x = is_nullish (castAsComparable env x)
   \<and> compare_operands env ''='' same (JStr ''null'') (JStr t) = (t = ''null'')
   \<and> \<not> compare_operands env ''='' same (JStr ''null'') (JNum n)
   \<and> \<not> compare_operands env ''='' same (JStr ''null'') (JBool b)"
proof (intro conjI)
  show "compare_operands env ''='' same (JStr ''10'') (JStr ''10.0'')"
    by (simp add: compare_operands_def castAsComparable_def digits_and_dots_def is_digit_def
        number_10 number_10_0 eq_defs)
  show "compare_operands env ''<'' same (JStr ''2024-01-01T00:00:00Z'')
      (JStr ''2024-01-02T00:00:00Z'')"
    by (simp add: compare_operands_def castAsComparable_def digits_and_dots_def is_digit_def
        first_of_january second_of_january time_first_of_january time_second_of_january
        js_less_def is_object_def js_toPrimitive_def)
  show "castAsComparable env (JStr ''null'') = JNull"
    by (rule cast_null)
  show "compare_operands env ''='' same (JStr ''null'') JNull"
    by (simp add: compare_operands_def cast_null eq_null castAsComparable_def
        digits_and_dots_def pattern_defs eq_defs)
  show "compare_operands env ''='' same (JStr ''null'') x = is_nullish (castAsComparable env x)"
    by (simp add: compare_operands_def cast_null eq_null)
  show "compare_operands env ''='' same (JStr ''null'') (JStr t) = (t = ''null'')"
    by (simp add: compare_operands_def cast_null eq_null cast_string_nullish)
  show "\<not> compare_operands env ''='' same (JStr ''null'') (JNum n)"
    by (simp add: compare_operands_def cast_null eq_null cast_number_nullish)
  show "\<not> compare_operands env ''='' same (JStr ''null'') (JBool b)"
    by (simp add: compare_operands_def cast_null eq_null cast_boolean_nullish)
qed

lemma cast_array_of_null: "castAsComparable env (JArr [JStr ''null'']) = JNull"
  by (simp add: castAsComparable_def pattern_defs eq_defs)

text \<open>The projection tests \<^verbatim>\<open>data == "null"\<close>, which holds for the array
  \<^verbatim>\<open>["null"]\<close> as well: the string \<^verbatim>\<open>"null"\<close> equals an operand that is not
  \<^verbatim>\<open>null\<close>.\<close>

theorem null_literal_equals_an_array:
  "compare_operands (sample_platform :: unit platform) ''='' False
     (JStr ''null'') (JArr [JStr ''null''])
   \<and> JArr [JStr ''null''] \<noteq> JNull"
  by (simp add: compare_operands_def cast_null cast_array_of_null eq_null is_nullish_def)

subsection \<open>Substitution\<close>

lemma segments_reference: "segments ''{context[0].foo}'' = [Group ''context[0].foo'']"
  by (simp add: segments.simps not_closing_def)

text \<open>
  C8.  When the JSONPath library finds the string \<^verbatim>\<open>bar\<close> first for the path
  \<^verbatim>\<open>foo\<close> in the object \<^verbatim>\<open>{"foo": "bar"}\<close>, the substitution of
  \<^verbatim>\<open>{context[0].foo}\<close> in a context store that starts with this object is the
  string \<^verbatim>\<open>bar\<close>.
\<close>

theorem context_substitution:
  "jsonpath_nodes env (JObj [(''foo'', JStr ''bar'')]) ''foo'' = Inr ((loc, JStr ''bar'') # others) \<Longrightarrow>
   replaceBrackets env ''{context[0].foo}'' (JObj [(''foo'', JStr ''bar'')] # rest) JUndefined =
     Inr ''bar''"
  by (simp add: replaceBrackets_def segments_reference replace_target_def replaceContext_def
      context_reference_def is_digit_def path_char_def is_lower_def is_upper_def context_at_def
      digits_value_def digit_value_def nat_toString.simps digit_char_def jsonpath_query_def
      is_nullish_def)

theorem context_substitution_witness:
  "jsonpath_nodes (member_platform :: unit platform) (JObj [(''foo'', JStr ''bar'')]) ''foo'' =
     Inr [([''$'', ''foo''], JStr ''bar'')]
   \<and> replaceBrackets (member_platform :: unit platform) ''{context[0].foo}''
       [JObj [(''foo'', JStr ''bar'')]] JUndefined = Inr ''bar''"
  using context_substitution [of "member_platform :: unit platform" "[''$'', ''foo'']" "[]" "[]"]
  by (simp add: member_platform_def)

subsection \<open>Groups that are no comparison\<close>

lemma mapM_all_true:
  "list_all (\<lambda>g. f g = Inr True) gs \<Longrightarrow> mapM f gs = Inr (map (\<lambda>g. True) gs)"
  by (induction gs) simp_all

text \<open>
  C10.  A group that does not match the comparison pattern gives true, and a template all
  of whose groups are such evaluates to true, whatever the context and the response.
  When \<^verbatim>\<open>/{.+}/\<close> finds a group in the template as well, the assertion on the
  expected body succeeds whatever the body is.
\<close>

theorem malformed_groups_pass:
  "(comparison_parts target = None \<longrightarrow> eval_target env context actual target = Inr True)
   \<and> (list_all (\<lambda>g. comparison_parts g = None) (groups definition)
      \<longrightarrow> evalBrackets env (JStr definition) context (body response) = Inr True)
   \<and> (list_all (\<lambda>g. comparison_parts g = None) (groups definition) \<and> has_brace_span definition
      \<longrightarrow> check_expected_body env (JStr definition) context response = Inr ())"
proof -
  have eval: "evalBrackets env (JStr definition) context (body response) = Inr True"
    if "list_all (\<lambda>g. comparison_parts g = None) (groups definition)"
  proof -
    from that
    have "list_all (\<lambda>g. eval_target env context (body response) g = Inr True) (groups definition)"
      by (simp add: list_all_iff eval_target_def)
    then have "mapM (eval_target env context (body response)) (groups definition) =
        Inr (map (\<lambda>g. True) (groups definition))"
      by (rule mapM_all_true)
    then show ?thesis
      by (simp add: evalBrackets_def is_nullish_def list_all_iff)
  qed
  show ?thesis
    by (simp add: eval eval_target_def check_expected_body_def)
qed

lemma segments_malformed:
  "segments ''{foo} {a  b}'' = [Group ''foo'', Lit CHR '' '', Group ''a  b'']"
  by (simp add: segments.simps not_closing_def)

text \<open>The template \<^verbatim>\<open>{foo} {a  b}\<close>: a group without operator and a group with two
  spaces in a row.\<close>

theorem malformed_groups_pass_witness:
  "comparison_parts ''foo'' = None
   \<and> eval_target (sample_platform :: unit platform) [] JNull ''foo'' = Inr True
   \<and> list_all (\<lambda>g. comparison_parts g = None) (groups ''{foo} {a  b}'')
   \<and> has_brace_span ''{foo} {a  b}''
   \<and> evalBrackets (sample_platform :: unit platform) (JStr ''{foo} {a  b}'') [] (JNum (Fin 5)) =
       Inr True
   \<and> check_expected_body (sample_platform :: unit platform) (JStr ''{foo} {a  b}'') []
       \<lparr>status = JNum (Fin 200), headers = [], body = JNum (Fin 5)\<rparr> = Inr ()"
  using malformed_groups_pass [of "''foo''" "sample_platform :: unit platform" "[]" JNull
      "''{foo} {a  b}''" "\<lparr>status = JNum (Fin 200), headers = [], body = JNum (Fin 5)\<rparr>"]
  by (simp add: comparison_parts_def groups_def segments_malformed is_line_terminator_def)

section \<open>Properties of the sequence executor\<close>

subsection \<open>The expected body\<close>

lemma has_brace_span_drop: "has_brace_span (drop n s) \<Longrightarrow> has_brace_span s"
proof (induction s arbitrary: n)
  case Nil
  then show ?case by simp
next
  case (Cons c cs)
  then show ?case by (cases n) auto
qed

lemma split_on_member: "c \<in> set s \<Longrightarrow> c \<noteq> d \<Longrightarrow> \<exists>p \<in> set (split_on d s). c \<in> set p"
  by (induction s) (auto split: list.splits)

lemma line_terminator_no_class:
  "is_line_terminator c \<Longrightarrow> \<not> operand_char c \<and> \<not> operator_char c \<and> c \<noteq> CHR '' ''"
  by (auto simp: is_line_terminator_def operand_char_def path_char_def operator_char_def
      is_lower_def is_upper_def is_digit_def)

lemma comparison_parts_line_terminator:
  assumes "c \<in> set g" "is_line_terminator c"
  shows "comparison_parts g = None"
proof -
  from assms line_terminator_no_class [OF assms(2)]
  obtain p where p: "p \<in> set (split_on CHR '' '' g)" "c \<in> set p"
    using split_on_member by blast
  have "\<not> list_all operand_char p" "\<not> list_all operator_char p"
    using p(2) line_terminator_no_class [OF assms(2)] by (auto simp: list_all_iff)
  with p(1) show ?thesis
    by (auto simp: comparison_parts_def split: list.splits)
qed

lemma groups_Nil: "groups [] = []"
  by (simp add: groups_def segments.simps)

lemma groups_Cons:
  "groups (c # cs) =
     (if c = CHR ''{'' \<and> takeWhile not_closing cs \<noteq> [] \<and> dropWhile not_closing cs \<noteq> []
      then takeWhile not_closing cs # groups (tl (dropWhile not_closing cs))
      else groups cs)"
proof (cases "c = CHR ''{'' \<and> takeWhile not_closing cs \<noteq> [] \<and> dropWhile not_closing cs \<noteq> []")
  case True
  then have e: "(c = CHR ''{'' \<and> takeWhile not_closing cs \<noteq> []
      \<and> dropWhile not_closing cs \<noteq> []) = True"
    by simp
  have "segments (c # cs) =
      Group (takeWhile not_closing cs) # segments (tl (dropWhile not_closing cs))"
    by (subst segments.simps(2)) (simp only: e if_True)
  then have "groups (c # cs) = takeWhile not_closing cs # groups (tl (dropWhile not_closing cs))"
    by (simp add: groups_def)
  then show ?thesis by (simp only: e if_True)
next
  case False
  then have e: "(c = CHR ''{'' \<and> takeWhile not_closing cs \<noteq> []
      \<and> dropWhile not_closing cs \<noteq> []) = False"
    by simp
  have "segments (c # cs) = Lit c # segments cs"
    by (subst segments.simps(2)) (simp only: e if_False)
  then have "groups (c # cs) = groups cs"
    by (simp add: groups_def)
  then show ?thesis by (simp only: e if_False)
qed

text \<open>A group in a string on which \<^verbatim>\<open>/{.+}/\<close> fails holds a line terminator.\<close>

lemma group_has_line_terminator:
  assumes g: "takeWhile not_closing cs \<noteq> []" and d: "dropWhile not_closing cs \<noteq> []"
    and n: "CHR ''}'' \<notin> set (drop 1 (takeWhile (\<lambda>x. \<not> is_line_terminator x) cs))"
  shows "\<exists>x \<in> set (takeWhile not_closing cs). is_line_terminator x"
proof (rule ccontr)
  assume "\<not> ?thesis"
  then have all: "\<And>x. x \<in> set (takeWhile not_closing cs) \<Longrightarrow> \<not> is_line_terminator x"
    by blast
  from d obtain r where r: "dropWhile not_closing cs = CHR ''}'' # r"
    using hd_dropWhile [of not_closing cs]
    by (cases "dropWhile not_closing cs") (auto simp: not_closing_def)
  have cs: "cs = takeWhile not_closing cs @ CHR ''}'' # r"
    using takeWhile_dropWhile_id [of not_closing cs] r by simp
  have "takeWhile (\<lambda>x. \<not> is_line_terminator x) cs =
        takeWhile not_closing cs @ takeWhile (\<lambda>x. \<not> is_line_terminator x) (CHR ''}'' # r)"
    by (subst cs, rule takeWhile_append2) (use all in auto)
  then have "CHR ''}'' \<in> set (drop 1 (takeWhile (\<lambda>x. \<not> is_line_terminator x) cs))"
    using g by (cases "takeWhile not_closing cs") (auto simp: is_line_terminator_def)
  with n show False by simp
qed

lemma groups_without_span:
  "\<not> has_brace_span s \<Longrightarrow> list_all (\<lambda>g. comparison_parts g = None) (groups s)"
proof (induction s rule: segments.induct)
  case 1
  then show ?case by (simp add: groups_Nil)
next
  case (2 c cs)
  show ?case
  proof (cases "c = CHR ''{'' \<and> takeWhile not_closing cs \<noteq> [] \<and> dropWhile not_closing cs \<noteq> []")
    case True
    from "2.prems" True
    have n: "CHR ''}'' \<notin> set (drop 1 (takeWhile (\<lambda>x. \<not> is_line_terminator x) cs))"
      and rest: "\<not> has_brace_span cs" by auto
    from True n obtain x where "x \<in> set (takeWhile not_closing cs)" "is_line_terminator x"
      using group_has_line_terminator by blast
    then have first: "comparison_parts (takeWhile not_closing cs) = None"
      by (rule comparison_parts_line_terminator)
    have "tl (dropWhile not_closing cs) = drop (Suc (length (takeWhile not_closing cs))) cs"
      by (simp add: dropWhile_eq_drop drop_Suc tl_drop)
    with rest have "\<not> has_brace_span (tl (dropWhile not_closing cs))"
      using has_brace_span_drop by metis
    with "2.IH"(1) True
    have "list_all (\<lambda>g. comparison_parts g = None) (groups (tl (dropWhile not_closing cs)))"
      by simp
    with first True show ?thesis by (simp add: groups_Cons)
  next
    case False
    from "2.prems" have "\<not> has_brace_span cs" by auto
    with "2.IH"(2) False have "list_all (\<lambda>g. comparison_parts g = None) (groups cs)" by blast
    moreover from False have "groups (c # cs) = groups cs"
      by (subst groups_Cons) (simp only: if_False)
    ultimately show ?thesis by simp
  qed
qed

lemma evalBrackets_without_span:
  "\<not> has_brace_span template \<Longrightarrow> evalBrackets env (JStr template) context response = Inr True"
proof -
  assume "\<not> has_brace_span template"
  then have "list_all (\<lambda>g. eval_target env context response g = Inr True) (groups template)"
    using groups_without_span [of template] by (simp add: list_all_iff eval_target_def)
  then have "mapM (eval_target env context response) (groups template) =
      Inr (map (\<lambda>g. True) (groups template))"
    by (rule mapM_all_true)
  then show ?thesis
    by (simp add: evalBrackets_def is_nullish_def list_all_iff)
qed

text \<open>
  C9, as the code has it.  The code decides with \<^verbatim>\<open>/{.+}/\<close> whether the expected
  body holds a placeholder group.  For a template that is a string on which this test
  fails, the assertion on the body succeeds exactly when \<^verbatim>\<open>stringifyObject\<close> gives
  the same string for the actual body and for the template.  This string is the JSON
  serialization for the template and for every body but \<^verbatim>\<open>null\<close>,
  \<^verbatim>\<open>undefined\<close> and a buffer.
\<close>

theorem expected_body_without_placeholder:
  "(\<not> has_brace_span template \<longrightarrow>
      (check_expected_body env (JStr template) context response = Inr ()) =
        (stringifyObject env (body response) = stringifyObject env (JStr template)))
   \<and> stringifyObject env (JStr template) = stringify env (JStr template)
   \<and> (\<not> is_nullish actual \<and> (\<forall>bs. actual \<noteq> JBuffer bs)
      \<longrightarrow> stringifyObject env actual = stringify env actual)"
  by (cases actual) (simp_all add: check_expected_body_def evalBrackets_without_span
      stringifyObject_def is_nullish_def)

text \<open>The template \<^verbatim>\<open>ok\<close> against the bodies \<^verbatim>\<open>"ok"\<close> and \<^verbatim>\<open>"no"\<close>.\<close>

theorem expected_body_without_placeholder_witness:
  "\<not> has_brace_span ''ok''
   \<and> check_expected_body (sample_platform :: unit platform) (JStr ''ok'') []
        \<lparr>status = JNum (Fin 200), headers = [], body = JStr ''ok''\<rparr> = Inr ()
   \<and> check_expected_body (sample_platform :: unit platform) (JStr ''ok'') []
        \<lparr>status = JNum (Fin 200), headers = [], body = JStr ''no''\<rparr> \<noteq> Inr ()
   \<and> stringifyObject (sample_platform :: unit platform) (JStr ''no'') =
       stringify (sample_platform :: unit platform) (JStr ''no'')"
  using
    expected_body_without_placeholder [of "''ok''" "sample_platform :: unit platform" "[]"
      "\<lparr>status = JNum (Fin 200), headers = [], body = JStr ''ok''\<rparr>" "JStr ''no''"]
    expected_body_without_placeholder [of "''ok''" "sample_platform :: unit platform" "[]"
      "\<lparr>status = JNum (Fin 200), headers = [], body = JStr ''no''\<rparr>" "JStr ''no''"]
  by (simp add: stringifyObject_def is_nullish_def quote_def quote_char_def)

lemma segments_unbalanced:
  "segments ''{}x}'' = [Lit CHR ''{'', Lit CHR ''}'', Lit CHR ''x'', Lit CHR ''}'']"
  by (simp add: segments.simps not_closing_def)

text \<open>
  The template \<^verbatim>\<open>{}x}\<close> holds no group of the resolver, and the assertion on it
  succeeds for the body \<^verbatim>\<open>5\<close>, whose serialization is another string: the test
  \<^verbatim>\<open>/{.+}/\<close> finds a group and the comparison is left out.  The template
  \<^verbatim>\<open>ok\<close> succeeds for a buffer that holds the four characters of the serialized
  template, and the JSON serialization of a buffer is another string.
\<close>

theorem unbalanced_braces_skip_the_comparison:
  "groups ''{}x}'' = []
   \<and> check_expected_body (sample_platform :: unit platform) (JStr ''{}x}'') []
        \<lparr>status = JNum (Fin 200), headers = [], body = JNum (Fin 5)\<rparr> = Inr ()
   \<and> stringify (sample_platform :: unit platform) (JNum (Fin 5)) \<noteq>
       stringify (sample_platform :: unit platform) (JStr ''{}x}'')
   \<and> groups ''ok'' = []
   \<and> check_expected_body (sample_platform :: unit platform) (JStr ''ok'') []
        \<lparr>status = JNum (Fin 200), headers = [], body = JBuffer (quote ''ok'')\<rparr> = Inr ()
   \<and> stringify (sample_platform :: unit platform) (JBuffer (quote ''ok'')) \<noteq>
       stringify (sample_platform :: unit platform) (JStr ''ok'')"
proof (intro conjI)
  show "groups ''{}x}'' = []"
    by (simp add: groups_def segments_unbalanced)
  then show "check_expected_body (sample_platform :: unit platform) (JStr ''{}x}'') []
        \<lparr>status = JNum (Fin 200), headers = [], body = JNum (Fin 5)\<rparr> = Inr ()"
    by (simp add: check_expected_body_def evalBrackets_def is_nullish_def is_line_terminator_def)
  show "stringify (sample_platform :: unit platform) (JNum (Fin 5)) \<noteq>
       stringify (sample_platform :: unit platform) (JStr ''{}x}'')"
    by (simp add: quote_def number_toString_def int_toString_def nat_toString.simps digit_char_def)
  show "groups ''ok'' = []"
    by (simp add: groups_def segments.simps)
  then show "check_expected_body (sample_platform :: unit platform) (JStr ''ok'') []
        \<lparr>status = JNum (Fin 200), headers = [], body = JBuffer (quote ''ok'')\<rparr> = Inr ()"
    by (simp add: check_expected_body_def evalBrackets_def is_nullish_def stringifyObject_def
        sample_platform_def quote_def quote_char_def)
  show "stringify (sample_platform :: unit platform) (JBuffer (quote ''ok'')) \<noteq>
       stringify (sample_platform :: unit platform) (JStr ''ok'')"
    by (simp add: quote_def)
qed

text \<open>
  An expected body that is neither a string nor \<^verbatim>\<open>null\<close> reaches
  \<^verbatim>\<open>definition.replace\<close> in \<^verbatim>\<open>evalBrackets\<close>, which no such value has: the
  assertion raises a \<^verbatim>\<open>TypeError\<close> whatever the actual body is, also when both
  serializations agree.  The expected headers go to \<^verbatim>\<open>evalBrackets\<close> only behind
  the test \<^verbatim>\<open>typeof expectedHeaders == "string"\<close>.
\<close>

lemma expected_body_not_a_string:
  "\<not> is_nullish expected \<Longrightarrow> \<forall>s. expected \<noteq> JStr s \<Longrightarrow>
   check_expected_body env expected context response = Inl (TypeError ''replace'')"
  by (cases expected) (simp_all add: check_expected_body_def evalBrackets_def)

lemma expected_object_never_passes:
  "check_expected_body (sample_platform :: unit platform) (JObj [(''a'', JNum (Fin 1))]) []
      \<lparr>status = JNum (Fin 200), headers = [], body = JObj [(''a'', JNum (Fin 1))]\<rparr> =
     Inl (TypeError ''replace'')"
  by (simp add: check_expected_body_def evalBrackets_def is_nullish_def)

subsection \<open>Test cases\<close>

lemma status_200: "number_toString env (Fin 200) = ''200''"
  by (simp add: number_toString_def int_toString_def nat_toString.simps digit_char_def)

lemmas run_defs =
  executeTestCases.simps invoke.simps step_def prepare_def validate_response_def
  check_expected_def writeLog_def toLowerCase_def upper_letters_def lower_letters_def
  header_def foldM.simps getSpec_def status_200

text \<open>
  C2 on the code.  A test case without steps ends \<^verbatim>\<open>executeTestCases\<close>, wherever
  it stands in the list: nothing is logged, no request is sent, and the cases behind it
  are not looked at.  The case \<^verbatim>\<open>second\<close> sends its request when it stands alone
  and sends none behind an empty case.
\<close>

theorem empty_sequence_ends_the_run:
  "executeTestCases env spec verbose
      (earlier @ \<lparr>title = t, tc_contextPath = c, sequence = Some []\<rparr> # later)
      (length earlier) st = (Inr (), st)
   \<and> executeTestCases env spec verbose
      (earlier @ \<lparr>title = t, tc_contextPath = c, sequence = None\<rparr> # later)
      (length earlier) st = (Inr (), st)
   \<and> executeTestCases recording_platform sample_contract False
      [test_case ''second'' [get_step ''/ping'']] 0 start =
     (Inr (), \<lparr>world = [(''get'', ''/ping'')],
               logged = [LogStarted ''second'', LogPass ''GET'' ''/ping'']\<rparr>)
   \<and> executeTestCases recording_platform sample_contract False
      [test_case ''first'' [], test_case ''second'' [get_step ''/ping'']] 0 start =
     (Inr (), \<lparr>world = [], logged = []\<rparr>)"
proof (intro conjI)
  show "executeTestCases env spec verbose
      (earlier @ \<lparr>title = t, tc_contextPath = c, sequence = Some []\<rparr> # later)
      (length earlier) st = (Inr (), st)"
    by (simp add: executeTestCases.simps)
  show "executeTestCases env spec verbose
      (earlier @ \<lparr>title = t, tc_contextPath = c, sequence = None\<rparr> # later)
      (length earlier) st = (Inr (), st)"
    by (simp add: executeTestCases.simps)
  show "executeTestCases recording_platform sample_contract False
      [test_case ''second'' [get_step ''/ping'']] 0 start =
     (Inr (), \<lparr>world = [(''get'', ''/ping'')],
               logged = [LogStarted ''second'', LogPass ''GET'' ''/ping'']\<rparr>)"
    by (simp add: run_defs sample_defs)
  show "executeTestCases recording_platform sample_contract False
      [test_case ''first'' [], test_case ''second'' [get_step ''/ping'']] 0 start =
     (Inr (), \<lparr>world = [], logged = []\<rparr>)"
    by (simp add: executeTestCases.simps test_case_def start_def)
qed

text \<open>
  C3 on the code.  The answer \<^verbatim>\<open>5\<close> to \<^verbatim>\<open>GET /name\<close> fails every branch of
  the \<^verbatim>\<open>oneOf\<close> of the contract, so the validator throws \<^verbatim>\<open>undefined\<close>: the
  second step of the case is not sent and the context store stays empty, but the handler
  of the case fails on \<^verbatim>\<open>error.message\<close> and the case \<^verbatim>\<open>second\<close> never
  starts.  A step on a path that the contract does not have raises an \<^verbatim>\<open>Error\<close>,
  and there the run goes on with the case \<^verbatim>\<open>second\<close>.
\<close>

theorem undefined_escapes_the_case_boundary:
  "invoke recording_platform sample_contract False []
      [get_step ''/name'', get_step ''/ping''] 0 [] start =
     (Inl ThrownUndefined, [], \<lparr>world = [(''get'', ''/name'')], logged = []\<rparr>)
   \<and> executeTestCases recording_platform sample_contract False
      [test_case ''first'' [get_step ''/name'', get_step ''/ping''],
       test_case ''second'' [get_step ''/ping'']] 0 start =
     (Inl (TypeError ''message''),
      \<lparr>world = [(''get'', ''/name'')], logged = [LogStarted ''first'']\<rparr>)
   \<and> executeTestCases recording_platform sample_contract False
      [test_case ''first'' [get_step ''/missing'', get_step ''/ping''],
       test_case ''second'' [get_step ''/ping'']] 0 start =
     (Inr (),
      \<lparr>world = [(''get'', ''/ping'')],
       logged = [LogStarted ''first'', LogNG (SpecNotFound ''/missing''),
                 LogStack (SpecNotFound ''/missing''), LogStarted ''second'',
                 LogPass ''GET'' ''/ping'']\<rparr>)"
proof (intro conjI)
  show "invoke recording_platform sample_contract False []
      [get_step ''/name'', get_step ''/ping''] 0 [] start =
     (Inl ThrownUndefined, [], \<lparr>world = [(''get'', ''/name'')], logged = []\<rparr>)"
    by (simp add: run_defs sample_defs validate_defs)
  then show "executeTestCases recording_platform sample_contract False
      [test_case ''first'' [get_step ''/name'', get_step ''/ping''],
       test_case ''second'' [get_step ''/ping'']] 0 start =
     (Inl (TypeError ''message''),
      \<lparr>world = [(''get'', ''/name'')], logged = [LogStarted ''first'']\<rparr>)"
    by (simp add: run_defs sample_defs validate_defs)
  show "executeTestCases recording_platform sample_contract False
      [test_case ''first'' [get_step ''/missing'', get_step ''/ping''],
       test_case ''second'' [get_step ''/ping'']] 0 start =
     (Inr (),
      \<lparr>world = [(''get'', ''/ping'')],
       logged = [LogStarted ''first'', LogNG (SpecNotFound ''/missing''),
                 LogStack (SpecNotFound ''/missing''), LogStarted ''second'',
                 LogPass ''GET'' ''/ping'']\<rparr>)"
    by (simp add: run_defs sample_defs)
qed

end
